theory Spec2Isabelle
  imports Complex_Main "HOL-Library.Product_Lexorder"
begin

section \<open>Python string helpers used by the handlers\<close>

text \<open>
  A Python \<open>str\<close> is a byte list: its UTF-8 encoding, which keeps equality, emptiness,
  concatenation and the places of ASCII characters such as the dot and the slash. The
  helpers below split at such characters only.
\<close>






section \<open>Library functions taken as parameters\<close>

text \<open>A Python \<open>float\<close>: a finite number, an infinity or \<open>nan\<close>.\<close>

datatype pyfloat = Finite real | PosInf | NegInf | NaN

text \<open>
  The handlers call Werkzeug (\<open>generate_password_hash\<close>, \<open>check_password_hash\<close>,
  \<open>secure_filename\<close>), Python's \<open>str.strip\<close> and \<open>str.lower\<close> (which act on all of
  Unicode: \<open>strip\<close> removes the no-break space, \<open>lower\<close> folds the Kelvin sign to
  \<open>k\<close>), Python's \<open>int\<close> and \<open>float\<close> on form text (\<open>None\<close> stands for the
  \<open>ValueError\<close> they raise) and SQLite's \<open>datetime('now')\<close>. None of them is code of
  this repository, so every handler takes them as a parameter and every theorem holds
  for all of them.
\<close>

record runtime =
  generate_password_hash :: "string \<Rightarrow> string"
  check_password_hash :: "string \<Rightarrow> string \<Rightarrow> bool"
  secure_filename :: "string \<Rightarrow> string"
  py_strip :: "string \<Rightarrow> string"
  py_lower :: "string \<Rightarrow> string"
  py_int :: "string \<Rightarrow> int option"
  py_float :: "string \<Rightarrow> pyfloat option"
  datetime_now :: string

section \<open>Photo reference naming\<close>






type_synonym flash = "string \<times> string"




section \<open>The store\<close>

text \<open>
  One record per table of \<open>init_db\<close>, a table being the list of its rows in insertion
  order. \<open>INTEGER\<close> columns are \<open>int\<close>, \<open>TEXT NOT NULL\<close> columns are strings, the
  nullable \<open>reviewed_at\<close> is an option. Only the tables the modelled handlers touch
  are kept (\<open>animals\<close> and \<open>reports\<close> are left out).
\<close>

record user =
  u_id :: int
  u_first_name :: string
  u_last_name :: string
  u_email :: string
  u_phone :: string
  u_password_hash :: string

record admin =
  a_id :: int
  a_username :: string
  a_password_hash :: string
  a_full_name :: string
  a_email :: string
  a_phone :: string
  a_must_reset_password :: int

record shelter =
  s_id :: int
  s_name :: string
  s_email :: string
  s_phone :: string
  s_address :: string
  s_description :: string
  s_website :: string
  s_photo_filename :: string
  s_password_hash :: string
  s_shelter_type :: string
  s_urgent_level :: int
  s_pickup_service :: int
  s_created_at :: string

record shelter_request =
  r_id :: int
  r_name :: string
  r_email :: string
  r_phone :: string
  r_address :: string
  r_description :: string
  r_website :: string
  r_photo_filename :: string
  r_password_hash :: string
  r_shelter_type :: string
  r_pickup_service :: int
  r_status :: string
  r_submitted_at :: string
  r_reviewed_at :: "string option"

record donation =
  d_id :: int
  d_user_id :: int
  d_category :: string
  d_shelter_id :: int
  d_amount :: pyfloat
  d_details :: string
  d_message :: string
  d_created_at :: string

text \<open>
  The \<open>seq_\<close> fields are SQLite's \<open>sqlite_sequence\<close> entries of the
  \<open>AUTOINCREMENT\<close> keys: the largest row id each table ever held.
\<close>

record database =
  users :: "user list"
  admins :: "admin list"
  shelters :: "shelter list"
  shelter_requests :: "shelter_request list"
  donations :: "donation list"
  seq_users :: int
  seq_admins :: int
  seq_shelters :: int
  seq_shelter_requests :: int
  seq_donations :: int

datatype exn = IntegrityError | ValueError | OverflowError

text \<open>The row id an \<open>AUTOINCREMENT\<close> insert gets: one more than the largest ever used.\<close>

definition next_rowid :: "int \<Rightarrow> int list \<Rightarrow> int" where
  "next_rowid seq ids = fold max ids seq + 1"

text \<open>
  \<open>INSERT INTO users\<close>: the \<open>UNIQUE\<close> constraint on \<open>email\<close> makes the statement fail
  with \<open>sqlite3.IntegrityError\<close>, and a failed statement changes nothing.
\<close>

definition insert_user ::
  "database \<Rightarrow> string \<Rightarrow> string \<Rightarrow> string \<Rightarrow> string \<Rightarrow> string \<Rightarrow> exn + database" where
  "insert_user db first_name last_name email phone password_hash =
     (if email \<in> set (map u_email (users db)) then Inl IntegrityError
      else
        let i = next_rowid (seq_users db) (map u_id (users db))
        in Inr (db\<lparr>users := users db @
                    [\<lparr>u_id = i, u_first_name = first_name, u_last_name = last_name,
                      u_email = email, u_phone = phone, u_password_hash = password_hash\<rparr>],
                  seq_users := i\<rparr>))"

definition insert_admin ::
  "database \<Rightarrow> string \<Rightarrow> string \<Rightarrow> string \<Rightarrow> string \<Rightarrow> string \<Rightarrow> int \<Rightarrow> exn + database" where
  "insert_admin db username password_hash full_name email phone must_reset =
     (if username \<in> set (map a_username (admins db)) then Inl IntegrityError
      else
        let i = next_rowid (seq_admins db) (map a_id (admins db))
        in Inr (db\<lparr>admins := admins db @
                    [\<lparr>a_id = i, a_username = username, a_password_hash = password_hash,
                      a_full_name = full_name, a_email = email, a_phone = phone,
                      a_must_reset_password = must_reset\<rparr>],
                  seq_admins := i\<rparr>))"

text \<open>
  \<open>INSERT INTO shelters\<close> as \<open>admin_shelter_request_approve\<close> issues it: ten columns
  given, \<open>urgent_level\<close> and \<open>created_at\<close> from their defaults, \<open>email\<close> unique.
\<close>

definition insert_shelter ::
  "database \<Rightarrow> string \<Rightarrow> shelter_request \<Rightarrow> exn + database" where
  "insert_shelter db now req =
     (if r_email req \<in> set (map s_email (shelters db)) then Inl IntegrityError
      else
        let i = next_rowid (seq_shelters db) (map s_id (shelters db))
        in Inr (db\<lparr>shelters := shelters db @
                    [\<lparr>s_id = i, s_name = r_name req, s_email = r_email req,
                      s_phone = r_phone req, s_address = r_address req,
                      s_description = r_description req, s_website = r_website req,
                      s_photo_filename = r_photo_filename req,
                      s_password_hash = r_password_hash req,
                      s_shelter_type = r_shelter_type req, s_urgent_level = 0,
                      s_pickup_service = r_pickup_service req, s_created_at = now\<rparr>],
                  seq_shelters := i\<rparr>))"

text \<open>
  The Python integers that the \<open>sqlite3\<close> module binds to a statement: those of 64 bits,
  signed. Any other raises \<open>OverflowError\<close> before the statement runs.
\<close>

definition sqlite_integer :: "int \<Rightarrow> bool" where
  "sqlite_integer k = (- (2 ^ 63) \<le> k \<and> k < 2 ^ 63)"

text \<open>
  \<open>INSERT INTO donations\<close> with the six values the handler gives. The two ids are bound
  first (\<open>OverflowError\<close> outside 64 bits); a \<open>nan\<close> amount is bound as \<open>NULL\<close>, which
  \<open>amount REAL NOT NULL\<close> refuses with \<open>IntegrityError\<close>; an infinity is stored. The table
  declares foreign keys, which SQLite enforces only after \<open>PRAGMA foreign_keys = ON\<close>;
  the code never issues it, so no row is refused for the member or the shelter it names.
\<close>

definition insert_donation ::
  "database \<Rightarrow> string \<Rightarrow> int \<Rightarrow> string \<Rightarrow> int \<Rightarrow> pyfloat \<Rightarrow> string \<Rightarrow> string \<Rightarrow> exn + database" where
  "insert_donation db now user_id category shelter_id amount details message =
     (if sqlite_integer user_id \<and> sqlite_integer shelter_id
      then if amount = NaN then Inl IntegrityError
           else
             let i = next_rowid (seq_donations db) (map d_id (donations db))
             in Inr (db\<lparr>donations := donations db @
                         [\<lparr>d_id = i, d_user_id = user_id, d_category = category,
                           d_shelter_id = shelter_id, d_amount = amount, d_details = details,
                           d_message = message, d_created_at = now\<rparr>],
                       seq_donations := i\<rparr>)
      else Inl OverflowError)"

text \<open>\<open>UPDATE shelter_requests SET status=?, reviewed_at=datetime('now') WHERE id=?\<close>.\<close>

definition update_request_status :: "database \<Rightarrow> string \<Rightarrow> string \<Rightarrow> int \<Rightarrow> database" where
  "update_request_status db now status req_id =
     db\<lparr>shelter_requests :=
          map (\<lambda>r. if r_id r = req_id then r\<lparr>r_status := status, r_reviewed_at := Some now\<rparr> else r)
            (shelter_requests db)\<rparr>"

text \<open>\<open>UPDATE admins SET password_hash = ?, must_reset_password = 0 WHERE id = ?\<close>.\<close>

definition update_admin_password :: "database \<Rightarrow> string \<Rightarrow> int \<Rightarrow> database" where
  "update_admin_password db password_hash admin_id' =
     db\<lparr>admins :=
          map (\<lambda>a. if a_id a = admin_id'
                    then a\<lparr>a_password_hash := password_hash, a_must_reset_password := 0\<rparr> else a)
            (admins db)\<rparr>"

text \<open>\<open>SELECT * FROM shelters ORDER BY urgent_level DESC, id DESC\<close>.\<close>

definition shelters_by_urgency :: "database \<Rightarrow> shelter list" where
  "shelters_by_urgency db = sort_key (\<lambda>s. (- s_urgent_level s, - s_id s)) (shelters db)"

text \<open>
  The last step of \<open>init_db\<close>, which runs before every request: the default
  administrator is created when the table is empty, with the reset flag set.
\<close>

definition init_db :: "runtime \<Rightarrow> database \<Rightarrow> database" where
  "init_db rt db =
     (if length (admins db) = 0
      then (case insert_admin db ''admin'' (generate_password_hash rt ''admin'') ''Admin''
                   ''admin@local'' [] 1 of
              Inl e \<Rightarrow> db | Inr db' \<Rightarrow> db')
      else db)"

section \<open>Requests, sessions and responses\<close>

text \<open>
  \<open>request.form\<close> is a multi-dictionary: \<open>get\<close> is the first value of a key or
  \<open>None\<close>, \<open>getlist\<close> is all of them. \<open>py_or v d\<close> is Python's \<open>v or d\<close> on an optional
  string.
\<close>

type_synonym form = "string \<Rightarrow> string list"

definition form_get :: "form \<Rightarrow> string \<Rightarrow> string option" where
  "form_get f k = (case f k of [] \<Rightarrow> None | v # _ \<Rightarrow> Some v)"

definition form_getlist :: "form \<Rightarrow> string \<Rightarrow> string list" where
  "form_getlist f k = f k"

definition py_or :: "string option \<Rightarrow> string \<Rightarrow> string" where
  "py_or v d = (case v of None \<Rightarrow> d | Some s \<Rightarrow> if s = [] then d else s)"

datatype http_method = GET | POST

record session =
  user_id :: "int option"
  admin_id :: "int option"
  shelter_id :: "int option"

text \<open>\<open>session.get(key)\<close> used as a condition: a missing key and the id 0 are falsy.\<close>

definition truthy :: "int option \<Rightarrow> bool" where
  "truthy v = (case v of None \<Rightarrow> False | Some k \<Rightarrow> k \<noteq> 0)"

text \<open>
  A handler ends in a redirect to an endpoint, a rendered template, \<open>abort(code)\<close> or
  an exception nobody catches (Flask answers 500, and the open transaction is never
  committed).
\<close>

datatype response = Redirect string | Render string | Abort nat | Raised exn

record outcome =
  resp :: response
  flashed :: "flash list"
  store :: database
  sess :: session

definition current_user :: "database \<Rightarrow> session \<Rightarrow> user option" where
  "current_user db se =
     (case user_id se of
        None \<Rightarrow> None
      | Some k \<Rightarrow> if k = 0 then None else find (\<lambda>u. u_id u = k) (users db))"

definition require_admin :: "session \<Rightarrow> response option" where
  "require_admin se = (if \<not> truthy (admin_id se) then Some (Redirect ''admin_login'') else None)"

section \<open>Handlers\<close>

text \<open>
  Each handler takes the library functions, the store, the session and the request,
  and returns the response with the store and the session it leaves. The context a
  template is rendered with is not modelled: a rendered page is its template's name.
\<close>

definition login_adapost :: "runtime \<Rightarrow> database \<Rightarrow> session \<Rightarrow> http_method \<Rightarrow> form \<Rightarrow> outcome" where
  "login_adapost rt db se method frm =
     (if method = POST then
        let email = py_lower rt (py_strip rt (py_or (form_get frm ''email'') []));
            password = py_or (form_get frm ''password'') []
        in if email = [] \<or> password = []
           then \<lparr>resp = Render ''login_shelter.html'',
                 flashed = [(''Emailul si parola sunt obligatorii.'', ''error'')],
                 store = db, sess = se\<rparr>
           else
             (case find (\<lambda>s. s_email s = email) (shelters db) of
                None \<Rightarrow>
                  \<lparr>resp = Render ''login_shelter.html'',
                   flashed = [(''Email sau parola incorecte (sau adapostul nu e aprobat).'', ''error'')],
                   store = db, sess = se\<rparr>
              | Some sh \<Rightarrow>
                  if s_password_hash sh = [] \<or> \<not> check_password_hash rt (s_password_hash sh) password
                  then \<lparr>resp = Render ''login_shelter.html'',
                        flashed = [(''Email sau parola incorecte (sau adapostul nu e aprobat).'', ''error'')],
                        store = db, sess = se\<rparr>
                  else \<lparr>resp = Redirect ''shelter_dashboard'',
                        flashed = [(''Adapost autentificat.'', ''success'')],
                        store = db, sess = se\<lparr>shelter_id := Some (s_id sh)\<rparr>\<rparr>)
      else \<lparr>resp = Render ''login_shelter.html'', flashed = [], store = db, sess = se\<rparr>)"

definition register_user :: "runtime \<Rightarrow> database \<Rightarrow> session \<Rightarrow> http_method \<Rightarrow> form \<Rightarrow> outcome" where
  "register_user rt db se method frm =
     (if method = POST then
        let first_name = py_strip rt (py_or (form_get frm ''first_name'') []);
            last_name = py_strip rt (py_or (form_get frm ''last_name'') []);
            email = py_lower rt (py_strip rt (py_or (form_get frm ''email'') []));
            phone = py_strip rt (py_or (form_get frm ''phone'') []);
            password = py_or (form_get frm ''password'') [];
            password2 = py_or (form_get frm ''password2'') []
        in if email = [] \<or> password = []
           then \<lparr>resp = Render ''register_user.html'',
                 flashed = [(''Emailul si parola sunt obligatorii.'', ''error'')],
                 store = db, sess = se\<rparr>
           else if password \<noteq> password2
           then \<lparr>resp = Render ''register_user.html'',
                 flashed = [(''Parolele nu coincid.'', ''error'')], store = db, sess = se\<rparr>
           else
             (case insert_user db first_name last_name email phone
                     (generate_password_hash rt password) of
                Inl e \<Rightarrow>
                  (case e of
                     IntegrityError \<Rightarrow>
                       \<lparr>resp = Render ''register_user.html'',
                        flashed = [(''Exista deja un cont cu acest email.'', ''error'')],
                        store = db, sess = se\<rparr>
                   | ValueError \<Rightarrow> \<lparr>resp = Raised e, flashed = [], store = db, sess = se\<rparr>
                   | OverflowError \<Rightarrow> \<lparr>resp = Raised e, flashed = [], store = db, sess = se\<rparr>)
              | Inr db' \<Rightarrow>
                  \<lparr>resp = Redirect ''login_utilizator'',
                   flashed = [(''Cont creat. Te poti autentifica.'', ''success'')],
                   store = db', sess = se\<rparr>)
      else \<lparr>resp = Render ''register_user.html'', flashed = [], store = db, sess = se\<rparr>)"

text \<open>
  \<open>float(request.form.get("amount") or 0)\<close>: a missing or empty field is \<open>0.0\<close>, any
  other text goes through \<open>float\<close>, which may raise and may answer \<open>nan\<close> or an infinity.
\<close>

definition form_amount :: "runtime \<Rightarrow> form \<Rightarrow> pyfloat option" where
  "form_amount rt frm =
     (case form_get frm ''amount'' of
        None \<Rightarrow> Some (Finite 0)
      | Some a \<Rightarrow> if a = [] then Some (Finite 0) else py_float rt a)"

definition ajuta_category ::
  "runtime \<Rightarrow> database \<Rightarrow> session \<Rightarrow> http_method \<Rightarrow> string \<Rightarrow> form \<Rightarrow> outcome" where
  "ajuta_category rt db se method category frm =
     (if category \<notin> set [''materials'', ''money'', ''volunteer'']
      then \<lparr>resp = Abort 404, flashed = [], store = db, sess = se\<rparr>
      else
        (case current_user db se of
           None \<Rightarrow>
             \<lparr>resp = Redirect ''login_utilizator'',
              flashed = [(''Pentru a ajuta, trebuie sa fii autentificat.'', ''error'')],
              store = db, sess = se\<rparr>
         | Some u \<Rightarrow>
             let shelters' = shelters_by_urgency db
             in if method = POST then
                  let mode = py_or (form_get frm ''mode'') ''auto''
                  in (case form_amount rt frm of
                        None \<Rightarrow> \<lparr>resp = Raised ValueError, flashed = [], store = db, sess = se\<rparr>
                      | Some amount \<Rightarrow>
                          let details = py_strip rt (py_or (form_get frm ''details'') []);
                              message = py_strip rt (py_or (form_get frm ''message'') []);
                              chosen_ids = form_getlist frm ''shelter_ids''
                          in (case (if mode = ''manual'' \<and> chosen_ids \<noteq> []
                                    then (case chosen_ids of [] \<Rightarrow> None | c # _ \<Rightarrow> py_int rt c)
                                    else (case shelters' of [] \<Rightarrow> Some 0 | s # _ \<Rightarrow> Some (s_id s))) of
                                None \<Rightarrow>
                                  \<lparr>resp = Raised ValueError, flashed = [], store = db, sess = se\<rparr>
                              | Some shelter_id' \<Rightarrow>
                                  (case insert_donation db (datetime_now rt) (u_id u) category
                                          shelter_id' amount details message of
                                     Inl e \<Rightarrow>
                                       \<lparr>resp = Raised e, flashed = [], store = db, sess = se\<rparr>
                                   | Inr db' \<Rightarrow>
                                       \<lparr>resp = Redirect ''ajuta'',
                                        flashed = [(''Multumim! Cererea ta a fost trimisa.'',
                                                    ''success'')],
                                        store = db', sess = se\<rparr>)))
                else \<lparr>resp = Render ''ajuta_category.html'', flashed = [], store = db, sess = se\<rparr>))"

definition admin_login :: "runtime \<Rightarrow> database \<Rightarrow> session \<Rightarrow> http_method \<Rightarrow> form \<Rightarrow> outcome" where
  "admin_login rt db se method frm =
     (if method = POST then
        let username = py_strip rt (py_or (form_get frm ''username'') []);
            password = py_or (form_get frm ''password'') []
        in (case find (\<lambda>a. a_username a = username) (admins db) of
              None \<Rightarrow>
                \<lparr>resp = Render ''admin_login.html'',
                 flashed = [(''Username sau parola incorecte.'', ''error'')], store = db, sess = se\<rparr>
            | Some adm \<Rightarrow>
                if \<not> check_password_hash rt (a_password_hash adm) password
                then \<lparr>resp = Render ''admin_login.html'',
                      flashed = [(''Username sau parola incorecte.'', ''error'')],
                      store = db, sess = se\<rparr>
                else if a_must_reset_password adm = 1
                then \<lparr>resp = Redirect ''admin_reset_password'', flashed = [], store = db,
                      sess = se\<lparr>admin_id := Some (a_id adm)\<rparr>\<rparr>
                else \<lparr>resp = Redirect ''admin_dashboard'', flashed = [], store = db,
                      sess = se\<lparr>admin_id := Some (a_id adm)\<rparr>\<rparr>)
      else \<lparr>resp = Render ''admin_login.html'', flashed = [], store = db, sess = se\<rparr>)"

definition admin_reset_password :: "database \<Rightarrow> session \<Rightarrow> outcome" where
  "admin_reset_password db se =
     (case require_admin se of
        Some guard \<Rightarrow> \<lparr>resp = guard, flashed = [], store = db, sess = se\<rparr>
      | None \<Rightarrow> \<lparr>resp = Render ''admin_reset_password.html'', flashed = [], store = db, sess = se\<rparr>)"

definition admin_reset_password_save :: "runtime \<Rightarrow> database \<Rightarrow> session \<Rightarrow> form \<Rightarrow> outcome" where
  "admin_reset_password_save rt db se frm =
     (case require_admin se of
        Some guard \<Rightarrow> \<lparr>resp = guard, flashed = [], store = db, sess = se\<rparr>
      | None \<Rightarrow>
          let password = py_or (form_get frm ''password'') [];
              password2 = py_or (form_get frm ''password2'') []
          in if password \<noteq> password2
             then \<lparr>resp = Redirect ''admin_reset_password'',
                   flashed = [(''Parolele nu coincid.'', ''error'')], store = db, sess = se\<rparr>
             else
               (case admin_id se of
                  None \<Rightarrow> \<lparr>resp = Redirect ''admin_login'', flashed = [], store = db, sess = se\<rparr>
                | Some k \<Rightarrow>
                    \<lparr>resp = Redirect ''admin_dashboard'',
                     flashed = [(''Parola actualizata.'', ''success'')],
                     store = update_admin_password db (generate_password_hash rt password) k,
                     sess = se\<rparr>))"

definition admin_dashboard :: "database \<Rightarrow> session \<Rightarrow> outcome" where
  "admin_dashboard db se =
     (case require_admin se of
        Some guard \<Rightarrow> \<lparr>resp = guard, flashed = [], store = db, sess = se\<rparr>
      | None \<Rightarrow> \<lparr>resp = Render ''admin_dashboard.html'', flashed = [], store = db, sess = se\<rparr>)"

definition admin_shelter_request_approve :: "runtime \<Rightarrow> database \<Rightarrow> session \<Rightarrow> int \<Rightarrow> outcome" where
  "admin_shelter_request_approve rt db se req_id =
     (case require_admin se of
        Some guard \<Rightarrow> \<lparr>resp = guard, flashed = [], store = db, sess = se\<rparr>
      | None \<Rightarrow>
          (case find (\<lambda>r. r_id r = req_id) (shelter_requests db) of
             None \<Rightarrow> \<lparr>resp = Abort 404, flashed = [], store = db, sess = se\<rparr>
           | Some req \<Rightarrow>
               (case insert_shelter db (datetime_now rt) req of
                  Inl e \<Rightarrow> \<lparr>resp = Raised e, flashed = [], store = db, sess = se\<rparr>
                | Inr db' \<Rightarrow>
                    \<lparr>resp = Redirect ''admin_shelter_requests'',
                     flashed = [(''Cerere aprobata.'', ''success'')],
                     store = update_request_status db' (datetime_now rt) ''APPROVED'' req_id,
                     sess = se\<rparr>)))"

definition admin_shelter_request_reject :: "runtime \<Rightarrow> database \<Rightarrow> session \<Rightarrow> int \<Rightarrow> outcome" where
  "admin_shelter_request_reject rt db se req_id =
     (case require_admin se of
        Some guard \<Rightarrow> \<lparr>resp = guard, flashed = [], store = db, sess = se\<rparr>
      | None \<Rightarrow>
          \<lparr>resp = Redirect ''admin_shelter_requests'',
           flashed = [(''Cerere respinsa.'', ''success'')],
           store = update_request_status db (datetime_now rt) ''REJECTED'' req_id,
           sess = se\<rparr>)"

section \<open>Concrete inputs\<close>

text \<open>
  The theorems below hold for every choice of the library functions; to run a handler
  on a concrete request, the examples use the following instance, store rows and
  sessions. \<open>empty_db\<close> is the store right after the \<open>CREATE TABLE\<close> statements.
\<close>

text \<open>
  The instance of \<open>str.lower\<close> and \<open>str.strip\<close> in the examples: the letters A to Z and
  the ASCII white space, which is what the built-ins do on ASCII text.
\<close>

definition ascii_lower :: "string \<Rightarrow> string" where
  "ascii_lower s =
     map (\<lambda>c. case map_of (zip ''ABCDEFGHIJKLMNOPQRSTUVWXYZ'' ''abcdefghijklmnopqrstuvwxyz'') c of
                 Some d \<Rightarrow> d | None \<Rightarrow> c) s"

definition ascii_isspace :: "char \<Rightarrow> bool" where
  "ascii_isspace c = (c \<in> set [CHR 0x09, CHR 0x0A, CHR 0x0B, CHR 0x0C, CHR 0x0D,
                                  CHR 0x1C, CHR 0x1D, CHR 0x1E, CHR 0x1F, CHR 0x20])"

definition ascii_strip :: "string \<Rightarrow> string" where
  "ascii_strip s = rev (dropWhile ascii_isspace (rev (dropWhile ascii_isspace s)))"

definition example_runtime :: runtime where
  "example_runtime =
     \<lparr>generate_password_hash = (\<lambda>p. ''hash:'' @ p),
      check_password_hash = (\<lambda>h p. h = ''hash:'' @ p),
      secure_filename = (\<lambda>n. n),
      py_strip = ascii_strip,
      py_lower = ascii_lower,
      py_int = map_of [(''1'', 1), (''2'', 2), (''3'', 3), (''7'', 7)],
      py_float = map_of [(''10'', Finite 10), (''2.5'', Finite (5 / 2))],
      datetime_now = ''2024-05-01 10:00:00''\<rparr>"

definition empty_db :: database where
  "empty_db =
     \<lparr>users = [], admins = [], shelters = [], shelter_requests = [], donations = [],
      seq_users = 0, seq_admins = 0, seq_shelters = 0, seq_shelter_requests = 0,
      seq_donations = 0\<rparr>"

definition example_request :: "int \<Rightarrow> string \<Rightarrow> string \<Rightarrow> string option \<Rightarrow> shelter_request" where
  "example_request i email status reviewed =
     \<lparr>r_id = i, r_name = ''Casa Labelor'', r_email = email, r_phone = ''0700'',
      r_address = ''Str. Lunga 1'', r_description = ''caini si pisici'',
      r_website = ''casa.example'', r_photo_filename = ''casa.png'',
      r_password_hash = ''hash:secret'', r_shelter_type = ''General'', r_pickup_service = 1,
      r_status = status, r_submitted_at = ''2024-04-01 09:00:00'', r_reviewed_at = reviewed\<rparr>"

definition example_shelter :: "int \<Rightarrow> string \<Rightarrow> int \<Rightarrow> string \<Rightarrow> shelter" where
  "example_shelter i email urgent password_hash =
     \<lparr>s_id = i, s_name = ''Adapost'', s_email = email, s_phone = [], s_address = [],
      s_description = [], s_website = [], s_photo_filename = [],
      s_password_hash = password_hash, s_shelter_type = ''General'', s_urgent_level = urgent,
      s_pickup_service = 1, s_created_at = ''2024-04-02 09:00:00''\<rparr>"

definition example_user :: "int \<Rightarrow> string \<Rightarrow> user" where
  "example_user i email =
     \<lparr>u_id = i, u_first_name = ''Ana'', u_last_name = ''Pop'', u_email = email, u_phone = [],
      u_password_hash = ''hash:pw''\<rparr>"

definition example_admin :: "int \<Rightarrow> int \<Rightarrow> admin" where
  "example_admin i must_reset =
     \<lparr>a_id = i, a_username = ''admin'', a_password_hash = ''hash:admin'', a_full_name = ''Admin'',
      a_email = ''admin@local'', a_phone = [], a_must_reset_password = must_reset\<rparr>"

definition no_session :: session where
  "no_session = \<lparr>user_id = None, admin_id = None, shelter_id = None\<rparr>"

definition admin_session :: session where
  "admin_session = \<lparr>user_id = None, admin_id = Some 1, shelter_id = None\<rparr>"

definition user_session :: session where
  "user_session = \<lparr>user_id = Some 1, admin_id = None, shelter_id = None\<rparr>"

text \<open>A form from a list of (field, value) pairs, in the order they were submitted.\<close>

definition form_of :: "(string \<times> string) list \<Rightarrow> form" where
  "form_of kvs k = map snd (filter (\<lambda>kv. fst kv = k) kvs)"

text \<open>
  A store with one member and four shelters, created in the order of their ids, of
  urgency 5, 0, 5 and 3.
\<close>

definition four_shelters_db :: database where
  "four_shelters_db =
     empty_db\<lparr>users := [example_user 1 ''ana@example.org''],
              shelters := [example_shelter 1 ''a@example.org'' 5 ''hash:a'',
                           example_shelter 2 ''b@example.org'' 0 ''hash:b'',
                           example_shelter 3 ''c@example.org'' 5 ''hash:c'',
                           example_shelter 4 ''d@example.org'' 3 ''hash:d''],
              seq_shelters := 4\<rparr>"


text \<open>
  A store whose one shelter has the empty \<open>password_hash\<close> that the column's default
  gives to rows older than the column.
\<close>

definition unrepaired_shelter_db :: database where
  "unrepaired_shelter_db =
     empty_db\<lparr>shelters := [example_shelter 1 ''a@example.org'' 0 []], seq_shelters := 1\<rparr>"

text \<open>A store holding one onboarding request, with the given status.\<close>

definition one_request_db :: "string \<Rightarrow> string option \<Rightarrow> database" where
  "one_request_db status reviewed =
     empty_db\<lparr>shelter_requests := [example_request 1 ''casa@example.org'' status reviewed]\<rparr>"

section \<open>Basic facts\<close>

lemmas example_defs =
  example_runtime_def empty_db_def example_request_def example_shelter_def example_user_def
  example_admin_def no_session_def admin_session_def user_session_def form_of_def
  one_request_db_def

lemma require_admin_truthy: "truthy (admin_id se) \<Longrightarrow> require_admin se = None"
  by (simp add: require_admin_def)

lemma find_update_same:
  "find (\<lambda>r. r_id r = k) rs = Some req \<Longrightarrow>
   find (\<lambda>r. r_id r = k)
     (map (\<lambda>r. if r_id r = k then r\<lparr>r_status := st, r_reviewed_at := rv\<rparr> else r) rs)
   = Some (req\<lparr>r_status := st, r_reviewed_at := rv\<rparr>)"
  by (induction rs) (auto split: if_splits)

section \<open>Onboarding lifecycle: approve\<close>

lemma approve_email_taken:
  assumes "truthy (admin_id se)"
    and "find (\<lambda>r. r_id r = req_id) (shelter_requests db) = Some req"
    and "r_email req \<in> set (map s_email (shelters db))"
  shows "admin_shelter_request_approve rt db se req_id =
           \<lparr>resp = Raised IntegrityError, flashed = [], store = db, sess = se\<rparr>"
  using assms
  by (simp add: admin_shelter_request_approve_def require_admin_truthy insert_shelter_def)

lemma approve_email_free:
  assumes "truthy (admin_id se)"
    and "find (\<lambda>r. r_id r = req_id) (shelter_requests db) = Some req"
    and "r_email req \<notin> set (map s_email (shelters db))"
  shows "\<exists>db'. insert_shelter db (datetime_now rt) req = Inr db' \<and>
           admin_shelter_request_approve rt db se req_id =
             \<lparr>resp = Redirect ''admin_shelter_requests'',
              flashed = [(''Cerere aprobata.'', ''success'')],
              store = update_request_status db' (datetime_now rt) ''APPROVED'' req_id,
              sess = se\<rparr>"
  using assms
  by (simp add: admin_shelter_request_approve_def require_admin_truthy insert_shelter_def Let_def)

lemma insert_shelter_Inr:
  assumes "insert_shelter db now req = Inr db'"
  shows "\<exists>sh. shelters db' = shelters db @ [sh] \<and>
      s_id sh = next_rowid (seq_shelters db) (map s_id (shelters db)) \<and>
      s_name sh = r_name req \<and> s_email sh = r_email req \<and> s_phone sh = r_phone req \<and>
      s_address sh = r_address req \<and> s_description sh = r_description req \<and>
      s_website sh = r_website req \<and> s_photo_filename sh = r_photo_filename req \<and>
      s_password_hash sh = r_password_hash req \<and> s_shelter_type sh = r_shelter_type req \<and>
      s_pickup_service sh = r_pickup_service req \<and> s_urgent_level sh = 0 \<and>
      s_created_at sh = now"
    and "shelter_requests db' = shelter_requests db"
  using assms by (auto simp: insert_shelter_def Let_def split: if_splits)

text \<open>
  With the request present, approve answers with its success redirect exactly when an
  administrator session is bound and no shelter holds the request's email yet.
\<close>

lemma approve_success_iff:
  assumes "find (\<lambda>r. r_id r = req_id) (shelter_requests db) = Some req"
  shows "(resp (admin_shelter_request_approve rt db se req_id) = Redirect ''admin_shelter_requests'')
       = (truthy (admin_id se) \<and> r_email req \<notin> set (map s_email (shelters db)))"
  using assms
  by (auto simp: admin_shelter_request_approve_def require_admin_def insert_shelter_def Let_def)

text \<open>
  Claim C6. For every existing request, a successful approve appends exactly one row to
  \<open>shelters\<close>; its name, email, phone, address, description, website, photo reference,
  credential hash, shelter category and pickup-service flag are the request's own (the
  hash is the stored string, no hashing function is applied to it), and the request is
  afterwards \<open>APPROVED\<close> with \<open>reviewed_at\<close> set to the current time.
\<close>

theorem approve_copies_request_into_one_shelter:
  assumes req: "find (\<lambda>r. r_id r = req_id) (shelter_requests db) = Some req"
    and ok: "resp (admin_shelter_request_approve rt db se req_id) = Redirect ''admin_shelter_requests''"
  shows "(\<exists>sh. shelters (store (admin_shelter_request_approve rt db se req_id)) = shelters db @ [sh] \<and>
      s_name sh = r_name req \<and> s_email sh = r_email req \<and> s_phone sh = r_phone req \<and>
      s_address sh = r_address req \<and> s_description sh = r_description req \<and>
      s_website sh = r_website req \<and> s_photo_filename sh = r_photo_filename req \<and>
      s_password_hash sh = r_password_hash req \<and> s_shelter_type sh = r_shelter_type req \<and>
      s_pickup_service sh = r_pickup_service req) \<and>
     find (\<lambda>r. r_id r = req_id)
       (shelter_requests (store (admin_shelter_request_approve rt db se req_id)))
       = Some (req\<lparr>r_status := ''APPROVED'', r_reviewed_at := Some (datetime_now rt)\<rparr>)"
proof -
  from ok req have adm: "truthy (admin_id se)"
    and free: "r_email req \<notin> set (map s_email (shelters db))"
    by (simp_all add: approve_success_iff)
  from approve_email_free [OF adm req free, of rt] obtain db' where
    ins: "insert_shelter db (datetime_now rt) req = Inr db'" and
    out: "admin_shelter_request_approve rt db se req_id =
           \<lparr>resp = Redirect ''admin_shelter_requests'',
            flashed = [(''Cerere aprobata.'', ''success'')],
            store = update_request_status db' (datetime_now rt) ''APPROVED'' req_id, sess = se\<rparr>"
    by blast
  from insert_shelter_Inr(1) [OF ins] obtain sh where sh: "shelters db' = shelters db @ [sh]"
      "s_name sh = r_name req" "s_email sh = r_email req" "s_phone sh = r_phone req"
      "s_address sh = r_address req" "s_description sh = r_description req"
      "s_website sh = r_website req" "s_photo_filename sh = r_photo_filename req"
      "s_password_hash sh = r_password_hash req" "s_shelter_type sh = r_shelter_type req"
      "s_pickup_service sh = r_pickup_service req"
    by blast
  have a: "shelters (store (admin_shelter_request_approve rt db se req_id)) = shelters db @ [sh]"
    by (simp add: out update_request_status_def sh(1))
  have b: "find (\<lambda>r. r_id r = req_id)
             (shelter_requests (store (admin_shelter_request_approve rt db se req_id)))
       = Some (req\<lparr>r_status := ''APPROVED'', r_reviewed_at := Some (datetime_now rt)\<rparr>)"
    using req
    by (simp add: out update_request_status_def insert_shelter_Inr(2) [OF ins] find_update_same)
  from a b sh(2-) show ?thesis by blast
qed

text \<open>
  Claim C6, at a concrete input: a pending request, approved by a logged-in
  administrator on a store without shelters.
\<close>

theorem approve_copies_request_into_one_shelter_witness:
  "find (\<lambda>r. r_id r = 1) (shelter_requests (one_request_db ''PENDING'' None))
     = Some (example_request 1 ''casa@example.org'' ''PENDING'' None) \<and>
   resp (admin_shelter_request_approve example_runtime (one_request_db ''PENDING'' None) admin_session 1)
     = Redirect ''admin_shelter_requests'' \<and>
   (\<exists>sh. shelters (store (admin_shelter_request_approve example_runtime
                            (one_request_db ''PENDING'' None) admin_session 1)) = [sh] \<and>
      s_email sh = ''casa@example.org'' \<and> s_password_hash sh = ''hash:secret'') \<and>
   find (\<lambda>r. r_id r = 1)
     (shelter_requests (store (admin_shelter_request_approve example_runtime
                                 (one_request_db ''PENDING'' None) admin_session 1)))
     = Some (example_request 1 ''casa@example.org'' ''APPROVED'' (Some ''2024-05-01 10:00:00''))"
proof -
  have req: "find (\<lambda>r. r_id r = 1) (shelter_requests (one_request_db ''PENDING'' None))
     = Some (example_request 1 ''casa@example.org'' ''PENDING'' None)"
    by (simp add: example_defs)
  have ok: "resp (admin_shelter_request_approve example_runtime (one_request_db ''PENDING'' None)
                    admin_session 1) = Redirect ''admin_shelter_requests''"
    by (simp add: approve_success_iff [OF req]) (simp add: example_defs truthy_def)
  have sh: "shelters (one_request_db ''PENDING'' None) = []"
    by (simp add: example_defs)
  from approve_copies_request_into_one_shelter [OF req ok] obtain sh' where
    "shelters (store (admin_shelter_request_approve example_runtime
                        (one_request_db ''PENDING'' None) admin_session 1)) = [sh']"
    "s_email sh' = ''casa@example.org''" "s_password_hash sh' = ''hash:secret''"
    and st: "find (\<lambda>r. r_id r = 1)
     (shelter_requests (store (admin_shelter_request_approve example_runtime
                                 (one_request_db ''PENDING'' None) admin_session 1)))
     = Some ((example_request 1 ''casa@example.org'' ''PENDING'' None)
               \<lparr>r_status := ''APPROVED'', r_reviewed_at := Some (datetime_now example_runtime)\<rparr>)"
    by (auto simp: sh example_request_def)
  moreover have "(example_request 1 ''casa@example.org'' ''PENDING'' None)
               \<lparr>r_status := ''APPROVED'', r_reviewed_at := Some (datetime_now example_runtime)\<rparr>
       = example_request 1 ''casa@example.org'' ''APPROVED'' (Some ''2024-05-01 10:00:00'')"
    by (simp add: example_request_def example_runtime_def)
  ultimately show ?thesis using req ok by auto
qed

text \<open>
  Claim C1, as stated, fails: approving a request that was already rejected inserts
  a shelter row (and turns the request into an approved one).
\<close>

theorem approve_rejected_request_inserts_shelter:
  "find (\<lambda>r. r_id r = 1) (shelter_requests (one_request_db ''REJECTED'' (Some ''2024-04-03 12:00:00'')))
     = Some (example_request 1 ''casa@example.org'' ''REJECTED'' (Some ''2024-04-03 12:00:00'')) \<and>
   shelters (one_request_db ''REJECTED'' (Some ''2024-04-03 12:00:00'')) = [] \<and>
   resp (admin_shelter_request_approve example_runtime
           (one_request_db ''REJECTED'' (Some ''2024-04-03 12:00:00'')) admin_session 1)
     = Redirect ''admin_shelter_requests'' \<and>
   map s_email (shelters (store (admin_shelter_request_approve example_runtime
           (one_request_db ''REJECTED'' (Some ''2024-04-03 12:00:00'')) admin_session 1)))
     = [''casa@example.org''] \<and>
   map r_status (shelter_requests (store (admin_shelter_request_approve example_runtime
           (one_request_db ''REJECTED'' (Some ''2024-04-03 12:00:00'')) admin_session 1)))
     = [''APPROVED'']"
  by (simp add: example_defs admin_shelter_request_approve_def require_admin_def truthy_def
        insert_shelter_def next_rowid_def update_request_status_def)

text \<open>
  Claim C1, amended. Approve never looks at the status. On a request that is already
  \<open>APPROVED\<close> or \<open>REJECTED\<close> it is refused only by the uniqueness of shelter emails:
  when a shelter with the request's email exists, the insert raises
  \<open>IntegrityError\<close> and store and session stay as they were; when none exists, one
  shelter row with the request's email is appended and the request becomes
  \<open>APPROVED\<close>.
\<close>

theorem approve_decided_request:
  assumes adm: "truthy (admin_id se)"
    and req: "find (\<lambda>r. r_id r = req_id) (shelter_requests db) = Some req"
    and decided: "r_status req = ''APPROVED'' \<or> r_status req = ''REJECTED''"
  shows "(r_email req \<in> set (map s_email (shelters db)) \<longrightarrow>
            admin_shelter_request_approve rt db se req_id =
              \<lparr>resp = Raised IntegrityError, flashed = [], store = db, sess = se\<rparr>) \<and>
         (r_email req \<notin> set (map s_email (shelters db)) \<longrightarrow>
            resp (admin_shelter_request_approve rt db se req_id) = Redirect ''admin_shelter_requests'' \<and>
            (\<exists>sh. shelters (store (admin_shelter_request_approve rt db se req_id)) = shelters db @ [sh] \<and>
                  s_email sh = r_email req) \<and>
            find (\<lambda>r. r_id r = req_id)
              (shelter_requests (store (admin_shelter_request_approve rt db se req_id)))
              = Some (req\<lparr>r_status := ''APPROVED'', r_reviewed_at := Some (datetime_now rt)\<rparr>))"
proof (intro conjI impI)
  assume "r_email req \<in> set (map s_email (shelters db))"
  with adm req show "admin_shelter_request_approve rt db se req_id =
              \<lparr>resp = Raised IntegrityError, flashed = [], store = db, sess = se\<rparr>"
    by (rule approve_email_taken)
next
  assume free: "r_email req \<notin> set (map s_email (shelters db))"
  from approve_email_free [OF adm req free, of rt] obtain db' where
    ins: "insert_shelter db (datetime_now rt) req = Inr db'" and
    out: "admin_shelter_request_approve rt db se req_id =
           \<lparr>resp = Redirect ''admin_shelter_requests'',
            flashed = [(''Cerere aprobata.'', ''success'')],
            store = update_request_status db' (datetime_now rt) ''APPROVED'' req_id, sess = se\<rparr>"
    by blast
  show "resp (admin_shelter_request_approve rt db se req_id) = Redirect ''admin_shelter_requests''"
    by (simp add: out)
  from insert_shelter_Inr(1) [OF ins] obtain sh where
    "shelters db' = shelters db @ [sh]" "s_email sh = r_email req" by blast
  then show "\<exists>sh. shelters (store (admin_shelter_request_approve rt db se req_id)) = shelters db @ [sh] \<and>
                  s_email sh = r_email req"
    by (simp add: out update_request_status_def)
  show "find (\<lambda>r. r_id r = req_id)
              (shelter_requests (store (admin_shelter_request_approve rt db se req_id)))
              = Some (req\<lparr>r_status := ''APPROVED'', r_reviewed_at := Some (datetime_now rt)\<rparr>)"
    using req
    by (simp add: out update_request_status_def insert_shelter_Inr(2) [OF ins] find_update_same)
qed

text \<open>
  Claim C1, amended, at two concrete inputs: an approved request whose shelter is in
  the store (the second approve is refused and changes nothing), and a rejected
  request on a store without shelters (the approve goes through).
\<close>

theorem approve_decided_request_witness:
  "admin_shelter_request_approve example_runtime
      ((one_request_db ''APPROVED'' (Some ''2024-04-03 12:00:00''))
         \<lparr>shelters := [example_shelter 1 ''casa@example.org'' 0 ''hash:secret'']\<rparr>) admin_session 1
    = \<lparr>resp = Raised IntegrityError, flashed = [],
       store = (one_request_db ''APPROVED'' (Some ''2024-04-03 12:00:00''))
         \<lparr>shelters := [example_shelter 1 ''casa@example.org'' 0 ''hash:secret'']\<rparr>,
       sess = admin_session\<rparr> \<and>
   resp (admin_shelter_request_approve example_runtime
           (one_request_db ''REJECTED'' (Some ''2024-04-03 12:00:00'')) admin_session 1)
     = Redirect ''admin_shelter_requests'' \<and>
   (\<exists>sh. shelters (store (admin_shelter_request_approve example_runtime
                      (one_request_db ''REJECTED'' (Some ''2024-04-03 12:00:00'')) admin_session 1))
           = [sh] \<and> s_email sh = ''casa@example.org'')"
proof -
  let ?db1 = "(one_request_db ''APPROVED'' (Some ''2024-04-03 12:00:00''))
         \<lparr>shelters := [example_shelter 1 ''casa@example.org'' 0 ''hash:secret'']\<rparr>"
  let ?db2 = "one_request_db ''REJECTED'' (Some ''2024-04-03 12:00:00'')"
  have adm: "truthy (admin_id admin_session)" by (simp add: admin_session_def truthy_def)
  have r1: "find (\<lambda>r. r_id r = 1) (shelter_requests ?db1)
              = Some (example_request 1 ''casa@example.org'' ''APPROVED'' (Some ''2024-04-03 12:00:00''))"
    by (simp add: example_defs)
  have d1: "r_status (example_request 1 ''casa@example.org'' ''APPROVED'' (Some ''2024-04-03 12:00:00'')) = ''APPROVED''
          \<or> r_status (example_request 1 ''casa@example.org'' ''APPROVED'' (Some ''2024-04-03 12:00:00'')) = ''REJECTED''"
    by (simp add: example_request_def)
  have t1: "r_email (example_request 1 ''casa@example.org'' ''APPROVED'' (Some ''2024-04-03 12:00:00''))
              \<in> set (map s_email (shelters ?db1))"
    by (simp add: example_defs)
  have r2: "find (\<lambda>r. r_id r = 1) (shelter_requests ?db2)
              = Some (example_request 1 ''casa@example.org'' ''REJECTED'' (Some ''2024-04-03 12:00:00''))"
    by (simp add: example_defs)
  have d2: "r_status (example_request 1 ''casa@example.org'' ''REJECTED'' (Some ''2024-04-03 12:00:00'')) = ''APPROVED''
          \<or> r_status (example_request 1 ''casa@example.org'' ''REJECTED'' (Some ''2024-04-03 12:00:00'')) = ''REJECTED''"
    by (simp add: example_request_def)
  have t2: "r_email (example_request 1 ''casa@example.org'' ''REJECTED'' (Some ''2024-04-03 12:00:00''))
              \<notin> set (map s_email (shelters ?db2))"
    by (simp add: example_defs)
  have e2: "shelters ?db2 = []" "r_email (example_request 1 ''casa@example.org'' ''REJECTED'' (Some ''2024-04-03 12:00:00'')) = ''casa@example.org''"
    by (simp_all add: example_defs)
  from approve_decided_request [OF adm r1 d1, of example_runtime] t1
  have a: "admin_shelter_request_approve example_runtime ?db1 admin_session 1
    = \<lparr>resp = Raised IntegrityError, flashed = [], store = ?db1, sess = admin_session\<rparr>"
    by blast
  from approve_decided_request [OF adm r2 d2, of example_runtime] t2 e2
  have b: "resp (admin_shelter_request_approve example_runtime ?db2 admin_session 1)
     = Redirect ''admin_shelter_requests'' \<and>
   (\<exists>sh. shelters (store (admin_shelter_request_approve example_runtime ?db2 admin_session 1))
           = [sh] \<and> s_email sh = ''casa@example.org'')"
    by auto
  from a b show ?thesis by blast
qed

text \<open>
  Claim C2, as stated, fails: rejecting a request that was already approved (its
  shelter is in the store) overwrites the stored status with \<open>REJECTED\<close> and reports
  success.
\<close>

theorem reject_overwrites_approved_status:
  "find (\<lambda>r. r_id r = 1)
     (shelter_requests ((one_request_db ''APPROVED'' (Some ''2024-04-03 12:00:00''))
         \<lparr>shelters := [example_shelter 1 ''casa@example.org'' 0 ''hash:secret'']\<rparr>))
     = Some (example_request 1 ''casa@example.org'' ''APPROVED'' (Some ''2024-04-03 12:00:00'')) \<and>
   find (\<lambda>r. r_id r = 1)
     (shelter_requests (store (admin_shelter_request_reject example_runtime
        ((one_request_db ''APPROVED'' (Some ''2024-04-03 12:00:00''))
           \<lparr>shelters := [example_shelter 1 ''casa@example.org'' 0 ''hash:secret'']\<rparr>) admin_session 1)))
     = Some (example_request 1 ''casa@example.org'' ''REJECTED'' (Some ''2024-05-01 10:00:00'')) \<and>
   resp (admin_shelter_request_reject example_runtime
        ((one_request_db ''APPROVED'' (Some ''2024-04-03 12:00:00''))
           \<lparr>shelters := [example_shelter 1 ''casa@example.org'' 0 ''hash:secret'']\<rparr>) admin_session 1)
     = Redirect ''admin_shelter_requests''"
  by (simp add: example_defs admin_shelter_request_reject_def require_admin_def truthy_def
        update_request_status_def)

text \<open>
  Claim C2, amended. Reject never looks at the status: for every existing request,
  pending or already decided, it stores \<open>REJECTED\<close> and a new \<open>reviewed_at\<close>,
  reports success and leaves the shelters table as it is.
\<close>

theorem reject_sets_rejected_whatever_the_status:
  assumes "truthy (admin_id se)"
    and "find (\<lambda>r. r_id r = req_id) (shelter_requests db) = Some req"
  shows "resp (admin_shelter_request_reject rt db se req_id) = Redirect ''admin_shelter_requests'' \<and>
    find (\<lambda>r. r_id r = req_id)
      (shelter_requests (store (admin_shelter_request_reject rt db se req_id)))
      = Some (req\<lparr>r_status := ''REJECTED'', r_reviewed_at := Some (datetime_now rt)\<rparr>) \<and>
    shelters (store (admin_shelter_request_reject rt db se req_id)) = shelters db"
  using assms
  by (simp add: admin_shelter_request_reject_def require_admin_truthy update_request_status_def
        find_update_same)

text \<open>Claim C2, amended, at a concrete input: a pending request is rejected.\<close>

theorem reject_sets_rejected_whatever_the_status_witness:
  "truthy (admin_id admin_session) \<and>
   find (\<lambda>r. r_id r = 1) (shelter_requests (one_request_db ''PENDING'' None))
     = Some (example_request 1 ''casa@example.org'' ''PENDING'' None) \<and>
   resp (admin_shelter_request_reject example_runtime (one_request_db ''PENDING'' None) admin_session 1)
     = Redirect ''admin_shelter_requests'' \<and>
   find (\<lambda>r. r_id r = 1)
      (shelter_requests (store (admin_shelter_request_reject example_runtime
                                  (one_request_db ''PENDING'' None) admin_session 1)))
     = Some ((example_request 1 ''casa@example.org'' ''PENDING'' None)
               \<lparr>r_status := ''REJECTED'', r_reviewed_at := Some (datetime_now example_runtime)\<rparr>) \<and>
   shelters (store (admin_shelter_request_reject example_runtime
                      (one_request_db ''PENDING'' None) admin_session 1)) = []"
proof -
  have adm: "truthy (admin_id admin_session)" by (simp add: admin_session_def truthy_def)
  have req: "find (\<lambda>r. r_id r = 1) (shelter_requests (one_request_db ''PENDING'' None))
     = Some (example_request 1 ''casa@example.org'' ''PENDING'' None)"
    by (simp add: example_defs)
  have sh: "shelters (one_request_db ''PENDING'' None) = []" by (simp add: example_defs)
  from reject_sets_rejected_whatever_the_status [OF adm req, of example_runtime] adm req sh
  show ?thesis by simp
qed

section \<open>Onboarding lifecycle: reject on a missing request\<close>

text \<open>
  Claim C7 asks for a not-found condition when the request id does not exist. Reject
  runs its \<open>UPDATE\<close> without looking the request up: on a store with no request 42 it
  flashes its success message, redirects to the request list and changes no row, where
  approve on the same input answers 404.
\<close>

theorem reject_missing_request_reports_success:
  "find (\<lambda>r. r_id r = 42) (shelter_requests empty_db) = None \<and>
   admin_shelter_request_reject example_runtime empty_db admin_session 42 =
     \<lparr>resp = Redirect ''admin_shelter_requests'', flashed = [(''Cerere respinsa.'', ''success'')],
      store = empty_db, sess = admin_session\<rparr> \<and>
   resp (admin_shelter_request_approve example_runtime empty_db admin_session 42) = Abort 404"
  by (simp add: example_defs admin_shelter_request_reject_def admin_shelter_request_approve_def
        require_admin_def truthy_def update_request_status_def)

section \<open>Assistance routing\<close>

text \<open>
  Claim C4 asks for a failure when no shelter exists. In automatic mode on a store
  without shelters the handler falls back to the shelter id 0, inserts the donation
  with that id and reports success.
\<close>

theorem ajuta_without_shelters_records_shelter_zero:
  "shelters (empty_db\<lparr>users := [example_user 1 ''ana@example.org'']\<rparr>) = [] \<and>
   ajuta_category example_runtime (empty_db\<lparr>users := [example_user 1 ''ana@example.org'']\<rparr>)
       user_session POST ''money'' (form_of [(''mode'', ''auto''), (''amount'', ''10'')]) =
     \<lparr>resp = Redirect ''ajuta'', flashed = [(''Multumim! Cererea ta a fost trimisa.'', ''success'')],
      store = empty_db\<lparr>users := [example_user 1 ''ana@example.org''],
                donations := [\<lparr>d_id = 1, d_user_id = 1, d_category = ''money'', d_shelter_id = 0,
                    d_amount = Finite 10, d_details = [], d_message = [],
                    d_created_at = ''2024-05-01 10:00:00''\<rparr>],
                seq_donations := 1\<rparr>,
      sess = user_session\<rparr>"
  by (simp add: example_defs ajuta_category_def current_user_def shelters_by_urgency_def
        form_amount_def form_get_def form_getlist_def py_or_def ascii_strip_def ascii_isspace_def
        insert_donation_def sqlite_integer_def next_rowid_def)

section \<open>Administrator reset flag\<close>

text \<open>
  On a store without administrators \<open>init_db\<close> creates the default one, flagged for a
  credential reset.
\<close>

lemma init_db_seeds_flagged_admin:
  "admins (init_db rt empty_db) =
     [\<lparr>a_id = 1, a_username = ''admin'', a_password_hash = generate_password_hash rt ''admin'',
       a_full_name = ''Admin'', a_email = ''admin@local'', a_phone = [],
       a_must_reset_password = 1\<rparr>]"
  by (simp add: init_db_def insert_admin_def empty_db_def next_rowid_def)

lemma login_form_fields:
  "py_strip example_runtime (py_or (form_get (form_of [(''username'', ''admin''), (''password'', ''admin'')]) ''username'') []) = ''admin''"
  "py_or (form_get (form_of [(''username'', ''admin''), (''password'', ''admin'')]) ''password'') [] = ''admin''"
  by (simp_all add: form_of_def form_get_def py_or_def example_runtime_def ascii_strip_def
        ascii_isspace_def)

lemma reset_form_fields:
  "py_or (form_get (form_of [(''password'', ''s3cret''), (''password2'', ''s3cret'')]) ''password'') [] = ''s3cret''"
  "py_or (form_get (form_of [(''password'', ''s3cret''), (''password2'', ''s3cret'')]) ''password2'') [] = ''s3cret''"
  by (simp_all add: form_of_def form_get_def py_or_def)

lemma seeded_login:
  "admin_login example_runtime (init_db example_runtime empty_db) no_session POST
           (form_of [(''username'', ''admin''), (''password'', ''admin'')])
   = \<lparr>resp = Redirect ''admin_reset_password'', flashed = [],
      store = init_db example_runtime empty_db, sess = no_session\<lparr>admin_id := Some 1\<rparr>\<rparr>"
  by (simp add: admin_login_def login_form_fields init_db_seeds_flagged_admin Let_def)
     (simp add: example_runtime_def)

text \<open>
  Claim C3 asks that a flagged administrator is redirected to the reset flow on every
  administrative route until the credential is changed. The code sets out to force the
  reset (the column \<open>must_reset_password\<close> defaults to 1, \<open>init_db\<close> seeds the default
  administrator flagged, \<open>admin_login\<close> redirects a flagged administrator to the reset
  page), but \<open>require_admin\<close>, the guard of every other administrative route, looks only
  at the session. The default administrator, flag still 1, logs in (and is redirected to
  the reset page once), then requests the dashboard and gets it rendered.
\<close>

theorem flagged_admin_reaches_dashboard:
  "map a_must_reset_password (admins (init_db example_runtime empty_db)) = [1] \<and>
   resp (admin_login example_runtime (init_db example_runtime empty_db) no_session POST
           (form_of [(''username'', ''admin''), (''password'', ''admin'')]))
     = Redirect ''admin_reset_password'' \<and>
   admin_dashboard (init_db example_runtime empty_db)
       (sess (admin_login example_runtime (init_db example_runtime empty_db) no_session POST
                (form_of [(''username'', ''admin''), (''password'', ''admin'')])))
     = \<lparr>resp = Render ''admin_dashboard.html'', flashed = [],
        store = init_db example_runtime empty_db,
        sess = no_session\<lparr>admin_id := Some 1\<rparr>\<rparr>"
  by (simp add: seeded_login init_db_seeds_flagged_admin admin_dashboard_def require_admin_def
        truthy_def)

text \<open>
  What the code does with the flag. A login with the right password binds the
  administrator to the session and answers with the redirect to the reset page exactly
  when the flag is 1.
\<close>

lemma admin_login_reads_flag:
  assumes "find (\<lambda>a. a_username a = py_strip rt (py_or (form_get frm ''username'') []))
             (admins db) = Some adm"
    and "check_password_hash rt (a_password_hash adm) (py_or (form_get frm ''password'') [])"
  shows "admin_login rt db se POST frm =
           \<lparr>resp = (if a_must_reset_password adm = 1 then Redirect ''admin_reset_password''
                    else Redirect ''admin_dashboard''),
            flashed = [], store = db, sess = se\<lparr>admin_id := Some (a_id adm)\<rparr>\<rparr>"
  using assms by (simp add: admin_login_def Let_def)

text \<open>With an administrator in the session, the dashboard is rendered for every store.\<close>

lemma admin_dashboard_ignores_flag:
  assumes "truthy (admin_id se)"
  shows "admin_dashboard db se =
           \<lparr>resp = Render ''admin_dashboard.html'', flashed = [], store = db, sess = se\<rparr>"
  using assms by (simp add: admin_dashboard_def require_admin_truthy)

text \<open>
  Saving the reset form with two equal passwords stores the hash of the new password in
  the row of the session's administrator, sets that row's flag to 0 and leaves every
  other row as it was.
\<close>

lemma admin_reset_password_save_rotates:
  assumes "admin_id se = Some k"
    and "k \<noteq> 0"
    and "py_or (form_get frm ''password'') [] = py_or (form_get frm ''password2'') []"
  shows "admin_reset_password_save rt db se frm =
           \<lparr>resp = Redirect ''admin_dashboard'',
            flashed = [(''Parola actualizata.'', ''success'')],
            store = db\<lparr>admins :=
                      map (\<lambda>a. if a_id a = k
                                then a\<lparr>a_password_hash :=
                                         generate_password_hash rt (py_or (form_get frm ''password'') []),
                                       a_must_reset_password := 0\<rparr>
                                else a)
                        (admins db)\<rparr>,
            sess = se\<rparr>"
  using assms
  by (simp add: admin_reset_password_save_def require_admin_def truthy_def Let_def
        update_admin_password_def)

text \<open>
  The default administrator after the reset: the row holds the new hash and the flag 0,
  and a login with the new password is answered with the redirect to the dashboard.
\<close>

lemma seeded_admin_after_reset:
  "admins (store (admin_reset_password_save example_runtime (init_db example_runtime empty_db)
             (no_session\<lparr>admin_id := Some 1\<rparr>)
             (form_of [(''password'', ''s3cret''), (''password2'', ''s3cret'')])))
     = [\<lparr>a_id = 1, a_username = ''admin'', a_password_hash = ''hash:s3cret'',
         a_full_name = ''Admin'', a_email = ''admin@local'', a_phone = [],
         a_must_reset_password = 0\<rparr>]"
proof -
  have k: "admin_id (no_session\<lparr>admin_id := Some 1\<rparr>) = Some 1" by simp
  have nz: "(1::int) \<noteq> 0" by simp
  have same: "py_or (form_get (form_of [(''password'', ''s3cret''), (''password2'', ''s3cret'')])
                ''password'') [] =
              py_or (form_get (form_of [(''password'', ''s3cret''), (''password2'', ''s3cret'')])
                ''password2'') []"
    by (simp add: reset_form_fields)
  show ?thesis
    by (simp add: admin_reset_password_save_rotates [OF k nz same] init_db_seeds_flagged_admin
          reset_form_fields)
       (simp add: example_runtime_def)
qed

section \<open>Assistance routing: the target shelter\<close>

lemma sort_key_head:
  assumes "sort_key f xs = y # ys"
  shows "y \<in> set xs \<and> (\<forall>x\<in>set xs. f y \<le> f x)"
proof -
  have "set (sort_key f xs) = set xs" by simp
  with assms have mem: "set xs = insert y (set ys)" by simp
  have "sorted (map f (sort_key f xs))" by (rule sorted_sort_key)
  with assms have "\<forall>z\<in>set ys. f y \<le> f z" by simp
  with mem show ?thesis by auto
qed

lemma sort_key_nonempty: "xs \<noteq> [] \<Longrightarrow> \<exists>y ys. sort_key f xs = y # ys"
  by (metis length_sort list.size(3) length_0_conv neq_Nil_conv)

text \<open>
  The first row of \<open>ORDER BY urgent_level DESC, id DESC\<close> is a row of the table with the
  highest urgency and, among those, the highest id.
\<close>

lemma shelters_by_urgency_head:
  assumes "shelters_by_urgency db = t # ts"
  shows "t \<in> set (shelters db) \<and>
         (\<forall>s\<in>set (shelters db). s_urgent_level s \<le> s_urgent_level t \<and>
            (s_urgent_level s = s_urgent_level t \<longrightarrow> s_id s \<le> s_id t))"
proof -
  from sort_key_head [OF assms [unfolded shelters_by_urgency_def]]
  have mem: "t \<in> set (shelters db)"
    and le: "\<forall>s\<in>set (shelters db).
               (- s_urgent_level t, - s_id t) \<le> (- s_urgent_level s, - s_id s)"
    by simp_all
  have "s_urgent_level s \<le> s_urgent_level t \<and>
        (s_urgent_level s = s_urgent_level t \<longrightarrow> s_id s \<le> s_id t)"
    if "s \<in> set (shelters db)" for s
    using le that by (auto simp: less_eq_prod_def)
  with mem show ?thesis by blast
qed

text \<open>
  Creation order. A table lists its rows in the order they were inserted, and
  \<open>AUTOINCREMENT\<close> gives every new row an id above all ids ever used: the ids of
  \<open>shelters\<close> grow along the table. This holds of the empty table and is kept by
  \<open>insert_shelter\<close>, the one statement of the code that adds a shelter.
\<close>

lemma fold_max_ge: "(\<forall>x\<in>set xs. x \<le> fold max xs (a::int)) \<and> a \<le> fold max xs a"
proof (induction xs arbitrary: a)
  case Nil
  show ?case by simp
next
  case (Cons x xs)
  from Cons [of "max x a"] show ?case by auto
qed

lemma next_rowid_is_new: "\<forall>x\<in>set ids. x < next_rowid seq ids"
  using fold_max_ge [of ids seq] unfolding next_rowid_def by force

lemma empty_db_ids_grow: "sorted_wrt (<) (map s_id (shelters empty_db))"
  by (simp add: empty_db_def)

lemma insert_shelter_ids_grow:
  assumes "sorted_wrt (<) (map s_id (shelters db))"
    and "insert_shelter db now req = Inr db'"
  shows "sorted_wrt (<) (map s_id (shelters db'))"
proof -
  from assms(2) have "map s_id (shelters db') =
      map s_id (shelters db) @ [next_rowid (seq_shelters db) (map s_id (shelters db))]"
    by (auto simp: insert_shelter_def Let_def split: if_splits)
  with assms(1) next_rowid_is_new [of "map s_id (shelters db)" "seq_shelters db"]
  show ?thesis by (simp add: sorted_wrt_append)
qed

text \<open>
  In a table whose ids grow with creation, the row with the highest urgency and, among
  those, the highest id is the most urgent row created last: no row before it is more
  urgent, every row after it is less urgent.
\<close>

lemma most_urgent_created_last:
  assumes grow: "sorted_wrt (<) (map s_id xs)"
    and mem: "t \<in> set xs"
    and mx: "\<forall>s\<in>set xs. s_urgent_level s \<le> s_urgent_level t \<and>
               (s_urgent_level s = s_urgent_level t \<longrightarrow> s_id s \<le> s_id t)"
  shows "\<exists>pre post. xs = pre @ t # post \<and>
           (\<forall>s\<in>set pre. s_urgent_level s \<le> s_urgent_level t) \<and>
           (\<forall>s\<in>set post. s_urgent_level s < s_urgent_level t)"
proof -
  from mem obtain pre post where xs: "xs = pre @ t # post" by (auto dest: split_list)
  from grow have later: "\<forall>s\<in>set post. s_id t < s_id s"
    by (simp add: xs sorted_wrt_append)
  have a: "\<forall>s\<in>set pre. s_urgent_level s \<le> s_urgent_level t"
    using mx by (simp add: xs)
  have b: "s_urgent_level s < s_urgent_level t" if "s \<in> set post" for s
  proof -
    from that mx have le: "s_urgent_level s \<le> s_urgent_level t"
      and tie: "s_urgent_level s = s_urgent_level t \<longrightarrow> s_id s \<le> s_id t"
      by (simp_all add: xs)
    from that later have "s_id t < s_id s" by simp
    with tie have "s_urgent_level s \<noteq> s_urgent_level t" by auto
    with le show ?thesis by simp
  qed
  from xs a b show ?thesis by blast
qed

lemma insert_donation_Inr:
  assumes "sqlite_integer uid" and "sqlite_integer k" and "amount \<noteq> NaN"
  shows "\<exists>db'. insert_donation db now uid category k amount details message = Inr db' \<and>
           (\<exists>row. donations db' = donations db @ [row] \<and>
              d_user_id row = uid \<and> d_category row = category \<and> d_shelter_id row = k \<and>
              d_amount row = amount)"
  using assms by (simp add: insert_donation_def Let_def)

lemma ajuta_post_auto:
  assumes "category \<in> set [''materials'', ''money'', ''volunteer'']"
    and "current_user db se = Some u"
    and "form_amount rt frm = Some amount"
    and "\<not> (py_or (form_get frm ''mode'') ''auto'' = ''manual'' \<and>
            form_getlist frm ''shelter_ids'' \<noteq> [])"
    and "shelters_by_urgency db = t # ts"
  shows "ajuta_category rt db se POST category frm =
           (case insert_donation db (datetime_now rt) (u_id u) category (s_id t) amount
                   (py_strip rt (py_or (form_get frm ''details'') []))
                   (py_strip rt (py_or (form_get frm ''message'') [])) of
              Inl e \<Rightarrow> \<lparr>resp = Raised e, flashed = [], store = db, sess = se\<rparr>
            | Inr db' \<Rightarrow>
                \<lparr>resp = Redirect ''ajuta'',
                 flashed = [(''Multumim! Cererea ta a fost trimisa.'', ''success'')],
                 store = db', sess = se\<rparr>)"
proof -
  from assms(4) have c: "(py_or (form_get frm ''mode'') ''auto'' = ''manual'' \<and>
            form_getlist frm ''shelter_ids'' \<noteq> []) = False" by simp
  show ?thesis using assms(1) assms(2) assms(3) assms(5)
    by (simp add: ajuta_category_def Let_def c)
qed

lemma ajuta_post_manual:
  assumes "category \<in> set [''materials'', ''money'', ''volunteer'']"
    and "current_user db se = Some u"
    and "form_amount rt frm = Some amount"
    and "py_or (form_get frm ''mode'') ''auto'' = ''manual''"
    and "form_getlist frm ''shelter_ids'' = c # cs"
    and "py_int rt c = Some k"
  shows "ajuta_category rt db se POST category frm =
           (case insert_donation db (datetime_now rt) (u_id u) category k amount
                   (py_strip rt (py_or (form_get frm ''details'') []))
                   (py_strip rt (py_or (form_get frm ''message'') [])) of
              Inl e \<Rightarrow> \<lparr>resp = Raised e, flashed = [], store = db, sess = se\<rparr>
            | Inr db' \<Rightarrow>
                \<lparr>resp = Redirect ''ajuta'',
                 flashed = [(''Multumim! Cererea ta a fost trimisa.'', ''success'')],
                 store = db', sess = se\<rparr>)"
  using assms by (simp add: ajuta_category_def Let_def)

lemma ajuta_records:
  assumes o: "ajuta_category rt db se POST category frm =
           (case insert_donation db now uid category k amount details message of
              Inl e \<Rightarrow> \<lparr>resp = Raised e, flashed = [], store = db, sess = se\<rparr>
            | Inr db' \<Rightarrow>
                \<lparr>resp = Redirect ''ajuta'',
                 flashed = [(''Multumim! Cererea ta a fost trimisa.'', ''success'')],
                 store = db', sess = se\<rparr>)"
    and "sqlite_integer uid" and "sqlite_integer k" and "amount \<noteq> NaN"
  shows "resp (ajuta_category rt db se POST category frm) = Redirect ''ajuta'' \<and>
         (\<exists>row. donations (store (ajuta_category rt db se POST category frm))
                   = donations db @ [row] \<and> d_shelter_id row = k)"
proof -
  from insert_donation_Inr [OF assms(2) assms(3) assms(4), of db now category details message]
  obtain db' row where i: "insert_donation db now uid category k amount details message = Inr db'"
    and d: "donations db' = donations db @ [row]" and s: "d_shelter_id row = k"
    by blast
  have r: "ajuta_category rt db se POST category frm =
             \<lparr>resp = Redirect ''ajuta'',
              flashed = [(''Multumim! Cererea ta a fost trimisa.'', ''success'')],
              store = db', sess = se\<rparr>"
    by (simp add: o i)
  from d s show ?thesis by (simp add: r)
qed

text \<open>
  A first selected id outside 64 bits is bound to no statement: the request ends in
  \<open>OverflowError\<close> and nothing is recorded.
\<close>

lemma ajuta_manual_id_outside_64_bits:
  assumes "category \<in> set [''materials'', ''money'', ''volunteer'']"
    and "current_user db se = Some u"
    and "form_amount rt frm = Some amount"
    and "py_or (form_get frm ''mode'') ''auto'' = ''manual''"
    and "form_getlist frm ''shelter_ids'' = c # cs"
    and "py_int rt c = Some k"
    and "\<not> sqlite_integer k"
  shows "ajuta_category rt db se POST category frm =
           \<lparr>resp = Raised OverflowError, flashed = [], store = db, sess = se\<rparr>"
  using assms by (simp add: ajuta_category_def Let_def insert_donation_def)

text \<open>
  Claim C5. A member's POST with a valid category and an amount that \<open>float\<close> reads as a
  number other than \<open>nan\<close>, on a store whose ids are of 64 bits and whose shelter ids
  grow with creation. Outside manual mode with a selection, and with at least one
  shelter in the table, the donation row appended names the most urgent shelter created
  last: no shelter created before it is more urgent, every shelter created after it is
  less urgent. In manual mode with a selection whose first entry \<open>int\<close> reads as the
  64-bit integer \<open>k\<close>, the donation row appended names \<open>k\<close>, whatever the urgencies are.
\<close>

theorem ajuta_targets_most_urgent_or_first_chosen:
  assumes cat: "category \<in> set [''materials'', ''money'', ''volunteer'']"
    and usr: "current_user db se = Some u"
    and uid: "sqlite_integer (u_id u)"
    and amt: "form_amount rt frm = Some amount"
    and nan: "amount \<noteq> NaN"
    and rng: "\<forall>s\<in>set (shelters db). sqlite_integer (s_id s)"
    and grow: "sorted_wrt (<) (map s_id (shelters db))"
  shows "(\<not> (py_or (form_get frm ''mode'') ''auto'' = ''manual'' \<and>
              form_getlist frm ''shelter_ids'' \<noteq> []) \<and> shelters db \<noteq> [] \<longrightarrow>
            (\<exists>pre t post. shelters db = pre @ t # post \<and>
               (\<forall>s\<in>set pre. s_urgent_level s \<le> s_urgent_level t) \<and>
               (\<forall>s\<in>set post. s_urgent_level s < s_urgent_level t) \<and>
               resp (ajuta_category rt db se POST category frm) = Redirect ''ajuta'' \<and>
               (\<exists>row. donations (store (ajuta_category rt db se POST category frm))
                         = donations db @ [row] \<and> d_shelter_id row = s_id t))) \<and>
         (\<forall>c cs k. py_or (form_get frm ''mode'') ''auto'' = ''manual'' \<and>
              form_getlist frm ''shelter_ids'' = c # cs \<and> py_int rt c = Some k \<and>
              sqlite_integer k \<longrightarrow>
            resp (ajuta_category rt db se POST category frm) = Redirect ''ajuta'' \<and>
            (\<exists>row. donations (store (ajuta_category rt db se POST category frm))
                      = donations db @ [row] \<and> d_shelter_id row = k))"
proof (intro conjI impI allI)
  assume a: "\<not> (py_or (form_get frm ''mode'') ''auto'' = ''manual'' \<and>
              form_getlist frm ''shelter_ids'' \<noteq> []) \<and> shelters db \<noteq> []"
  then have "shelters db \<noteq> []" by simp
  then obtain t ts where hd: "shelters_by_urgency db = t # ts"
    unfolding shelters_by_urgency_def using sort_key_nonempty by blast
  from a have m: "\<not> (py_or (form_get frm ''mode'') ''auto'' = ''manual'' \<and>
              form_getlist frm ''shelter_ids'' \<noteq> [])" by simp
  from shelters_by_urgency_head [OF hd]
  have mem: "t \<in> set (shelters db)"
    and mx: "\<forall>s\<in>set (shelters db). s_urgent_level s \<le> s_urgent_level t \<and>
                  (s_urgent_level s = s_urgent_level t \<longrightarrow> s_id s \<le> s_id t)"
    by simp_all
  from rng mem have tid: "sqlite_integer (s_id t)" by simp
  from most_urgent_created_last [OF grow mem mx] obtain pre post
    where xs: "shelters db = pre @ t # post"
      and before: "\<forall>s\<in>set pre. s_urgent_level s \<le> s_urgent_level t"
      and after: "\<forall>s\<in>set post. s_urgent_level s < s_urgent_level t"
    by blast
  from ajuta_records [OF ajuta_post_auto [OF cat usr amt m hd] uid tid nan]
  have r: "resp (ajuta_category rt db se POST category frm) = Redirect ''ajuta''"
    and d: "\<exists>row. donations (store (ajuta_category rt db se POST category frm))
                         = donations db @ [row] \<and> d_shelter_id row = s_id t"
    by simp_all
  from xs before after r d
  show "\<exists>pre t post. shelters db = pre @ t # post \<and>
               (\<forall>s\<in>set pre. s_urgent_level s \<le> s_urgent_level t) \<and>
               (\<forall>s\<in>set post. s_urgent_level s < s_urgent_level t) \<and>
               resp (ajuta_category rt db se POST category frm) = Redirect ''ajuta'' \<and>
               (\<exists>row. donations (store (ajuta_category rt db se POST category frm))
                         = donations db @ [row] \<and> d_shelter_id row = s_id t)"
    by (intro exI [of _ pre] exI [of _ t] exI [of _ post] conjI)
next
  fix c cs k
  assume a: "py_or (form_get frm ''mode'') ''auto'' = ''manual'' \<and>
              form_getlist frm ''shelter_ids'' = c # cs \<and> py_int rt c = Some k \<and>
              sqlite_integer k"
  then have m: "py_or (form_get frm ''mode'') ''auto'' = ''manual''"
    and ids: "form_getlist frm ''shelter_ids'' = c # cs" and k: "py_int rt c = Some k"
    and kr: "sqlite_integer k"
    by simp_all
  from ajuta_records [OF ajuta_post_manual [OF cat usr amt m ids k] uid kr nan]
  show "resp (ajuta_category rt db se POST category frm) = Redirect ''ajuta''"
    by simp
next
  fix c cs k
  assume a: "py_or (form_get frm ''mode'') ''auto'' = ''manual'' \<and>
              form_getlist frm ''shelter_ids'' = c # cs \<and> py_int rt c = Some k \<and>
              sqlite_integer k"
  then have m: "py_or (form_get frm ''mode'') ''auto'' = ''manual''"
    and ids: "form_getlist frm ''shelter_ids'' = c # cs" and k: "py_int rt c = Some k"
    and kr: "sqlite_integer k"
    by simp_all
  from ajuta_records [OF ajuta_post_manual [OF cat usr amt m ids k] uid kr nan]
  show "\<exists>row. donations (store (ajuta_category rt db se POST category frm))
                      = donations db @ [row] \<and> d_shelter_id row = k"
    by simp
qed

lemma four_shelters_facts:
  "current_user four_shelters_db user_session = Some (example_user 1 ''ana@example.org'')"
  "sqlite_integer (u_id (example_user 1 ''ana@example.org''))"
  "\<forall>s\<in>set (shelters four_shelters_db). sqlite_integer (s_id s)"
  "sorted_wrt (<) (map s_id (shelters four_shelters_db))"
  "donations four_shelters_db = []"
  by (simp_all add: current_user_def four_shelters_db_def user_session_def example_user_def
        example_shelter_def empty_db_def sqlite_integer_def)

lemma auto_form_fields:
  "form_amount example_runtime (form_of [(''mode'', ''auto''), (''amount'', ''10'')])
     = Some (Finite 10)"
  "py_or (form_get (form_of [(''mode'', ''auto''), (''amount'', ''10'')]) ''mode'') ''auto'' = ''auto''"
  by (simp_all add: form_amount_def form_get_def form_of_def py_or_def example_runtime_def)

lemma manual_form_fields:
  "form_amount example_runtime
     (form_of [(''mode'', ''manual''), (''shelter_ids'', ''2''), (''shelter_ids'', ''4'')])
     = Some (Finite 0)"
  "py_or (form_get (form_of [(''mode'', ''manual''), (''shelter_ids'', ''2''),
                             (''shelter_ids'', ''4'')]) ''mode'') ''auto'' = ''manual''"
  "form_getlist (form_of [(''mode'', ''manual''), (''shelter_ids'', ''2''),
                          (''shelter_ids'', ''4'')]) ''shelter_ids'' = [''2'', ''4'']"
  "py_int example_runtime ''2'' = Some 2"
  "sqlite_integer 2"
  by (simp_all add: form_amount_def form_get_def form_getlist_def form_of_def py_or_def
        example_runtime_def sqlite_integer_def)

text \<open>
  Claim C5 at a concrete input: the shelters 1 to 4, created in that order, have the
  urgencies 5, 0, 5 and 3. Automatic mode records shelter 3, the later of the two most
  urgent; manual mode with the selection 2, 4 records shelter 2, the least urgent.
\<close>

theorem ajuta_targets_most_urgent_or_first_chosen_witness:
  "map s_id (shelters four_shelters_db) = [1, 2, 3, 4] \<and>
   map s_urgent_level (shelters four_shelters_db) = [5, 0, 5, 3] \<and>
   (\<exists>row. donations (store (ajuta_category example_runtime four_shelters_db user_session POST
                 ''money'' (form_of [(''mode'', ''auto''), (''amount'', ''10'')]))) = [row] \<and>
          d_shelter_id row = 3) \<and>
   (\<exists>row. donations (store (ajuta_category example_runtime four_shelters_db user_session POST
                 ''money'' (form_of [(''mode'', ''manual''), (''shelter_ids'', ''2''),
                                     (''shelter_ids'', ''4'')]))) = [row] \<and>
          d_shelter_id row = 2)"
proof -
  let ?auto = "form_of [(''mode'', ''auto''), (''amount'', ''10'')]"
  let ?manual = "form_of [(''mode'', ''manual''), (''shelter_ids'', ''2''), (''shelter_ids'', ''4'')]"
  have cat: "''money'' \<in> set [''materials'', ''money'', ''volunteer'']" by simp
  have sh: "shelters four_shelters_db =
              [example_shelter 1 ''a@example.org'' 5 ''hash:a'',
               example_shelter 2 ''b@example.org'' 0 ''hash:b'',
               example_shelter 3 ''c@example.org'' 5 ''hash:c'',
               example_shelter 4 ''d@example.org'' 3 ''hash:d'']"
    by (simp add: four_shelters_db_def empty_db_def)
  have i: "map s_id (shelters four_shelters_db) = [1, 2, 3, 4]"
    by (simp add: sh example_shelter_def)
  have u: "map s_urgent_level (shelters four_shelters_db) = [5, 0, 5, 3]"
    by (simp add: sh example_shelter_def)
  have n10: "Finite 10 \<noteq> NaN" and n0: "Finite 0 \<noteq> NaN" by simp_all
  note ta = ajuta_targets_most_urgent_or_first_chosen
         [OF cat four_shelters_facts(1) four_shelters_facts(2) auto_form_fields(1) n10
             four_shelters_facts(3) four_shelters_facts(4)]
  have ante: "\<not> (py_or (form_get ?auto ''mode'') ''auto'' = ''manual'' \<and>
              form_getlist ?auto ''shelter_ids'' \<noteq> []) \<and> shelters four_shelters_db \<noteq> []"
    by (simp add: auto_form_fields(2) sh)
  from ta [THEN conjunct1] ante
  have "\<exists>pre t post. shelters four_shelters_db = pre @ t # post \<and>
               (\<forall>s\<in>set pre. s_urgent_level s \<le> s_urgent_level t) \<and>
               (\<forall>s\<in>set post. s_urgent_level s < s_urgent_level t) \<and>
               resp (ajuta_category example_runtime four_shelters_db user_session POST
                       ''money'' ?auto) = Redirect ''ajuta'' \<and>
               (\<exists>row. donations (store (ajuta_category example_runtime four_shelters_db
                          user_session POST ''money'' ?auto))
                         = donations four_shelters_db @ [row] \<and>
                       d_shelter_id row = s_id t)"
    by (rule mp)
  then obtain pre t post row
    where xs: "shelters four_shelters_db = pre @ t # post"
      and before: "\<forall>s\<in>set pre. s_urgent_level s \<le> s_urgent_level t"
      and after: "\<forall>s\<in>set post. s_urgent_level s < s_urgent_level t"
      and d: "donations (store (ajuta_category example_runtime four_shelters_db
                          user_session POST ''money'' ?auto)) = donations four_shelters_db @ [row]"
      and s: "d_shelter_id row = s_id t"
    by (elim exE conjE)
  from xs before after have "s_id t = 3"
    by (auto simp: sh example_shelter_def Cons_eq_append_conv)
  with d s have a: "\<exists>row. donations (store (ajuta_category example_runtime four_shelters_db
                 user_session POST ''money'' ?auto)) = [row] \<and> d_shelter_id row = 3"
    by (simp add: four_shelters_facts(5))
  from ajuta_targets_most_urgent_or_first_chosen
         [OF cat four_shelters_facts(1) four_shelters_facts(2) manual_form_fields(1) n0
             four_shelters_facts(3) four_shelters_facts(4)]
  have m: "\<exists>row. donations (store (ajuta_category example_runtime four_shelters_db user_session
                 POST ''money'' ?manual)) = [row] \<and> d_shelter_id row = 2"
    by (simp add: manual_form_fields four_shelters_facts(5))
  from i u a m show ?thesis by (intro conjI)
qed

section \<open>Member registration: duplicate email\<close>

lemma register_user_new_email:
  assumes "py_lower rt (py_strip rt (py_or (form_get frm ''email'') [])) = email"
    and "email \<noteq> []"
    and "py_or (form_get frm ''password'') [] \<noteq> []"
    and "py_or (form_get frm ''password'') [] = py_or (form_get frm ''password2'') []"
    and "email \<notin> set (map u_email (users db))"
  shows "register_user rt db se POST frm =
           \<lparr>resp = Redirect ''login_utilizator'',
            flashed = [(''Cont creat. Te poti autentifica.'', ''success'')],
            store = db\<lparr>users := users db @
                      [\<lparr>u_id = next_rowid (seq_users db) (map u_id (users db)),
                        u_first_name = py_strip rt (py_or (form_get frm ''first_name'') []),
                        u_last_name = py_strip rt (py_or (form_get frm ''last_name'') []),
                        u_email = email,
                        u_phone = py_strip rt (py_or (form_get frm ''phone'') []),
                        u_password_hash =
                          generate_password_hash rt (py_or (form_get frm ''password'') [])\<rparr>],
                      seq_users := next_rowid (seq_users db) (map u_id (users db))\<rparr>,
            sess = se\<rparr>"
  using assms by (simp add: register_user_def insert_user_def Let_def)

lemma register_user_taken_email:
  assumes "py_lower rt (py_strip rt (py_or (form_get frm ''email'') [])) = email"
    and "email \<noteq> []"
    and "py_or (form_get frm ''password'') [] \<noteq> []"
    and "py_or (form_get frm ''password'') [] = py_or (form_get frm ''password2'') []"
    and "email \<in> set (map u_email (users db))"
  shows "register_user rt db se POST frm =
           \<lparr>resp = Render ''register_user.html'',
            flashed = [(''Exista deja un cont cu acest email.'', ''error'')],
            store = db, sess = se\<rparr>"
  using assms by (simp add: register_user_def insert_user_def Let_def)

text \<open>
  Claim C8. Two registrations whose forms carry the same email (after \<open>strip\<close> and
  \<open>lower\<close>), each with a non-empty password typed twice, on a store where the email is
  not yet a member's: the first is answered with the redirect to the login page and
  appends one row with that email; the second, on the store the first left, is answered
  with the registration page and the duplicate message and leaves the store as it was.
  The second is refused by the insert itself: \<open>insert_user\<close> with its values raises
  \<open>IntegrityError\<close>, the handler has no lookup before it.
\<close>

theorem register_user_twice_same_email:
  assumes e1: "py_lower rt (py_strip rt (py_or (form_get frm1 ''email'') [])) = email"
    and e2: "py_lower rt (py_strip rt (py_or (form_get frm2 ''email'') [])) = email"
    and ne: "email \<noteq> []"
    and p1: "py_or (form_get frm1 ''password'') [] \<noteq> []"
    and q1: "py_or (form_get frm1 ''password'') [] = py_or (form_get frm1 ''password2'') []"
    and p2: "py_or (form_get frm2 ''password'') [] \<noteq> []"
    and q2: "py_or (form_get frm2 ''password'') [] = py_or (form_get frm2 ''password2'') []"
    and fresh: "email \<notin> set (map u_email (users db))"
  shows "resp (register_user rt db se1 POST frm1) = Redirect ''login_utilizator'' \<and>
         (\<exists>row. users (store (register_user rt db se1 POST frm1)) = users db @ [row] \<and>
                u_email row = email) \<and>
         insert_user (store (register_user rt db se1 POST frm1))
             (py_strip rt (py_or (form_get frm2 ''first_name'') []))
             (py_strip rt (py_or (form_get frm2 ''last_name'') []))
             email
             (py_strip rt (py_or (form_get frm2 ''phone'') []))
             (generate_password_hash rt (py_or (form_get frm2 ''password'') []))
           = Inl IntegrityError \<and>
         register_user rt (store (register_user rt db se1 POST frm1)) se2 POST frm2 =
           \<lparr>resp = Render ''register_user.html'',
            flashed = [(''Exista deja un cont cu acest email.'', ''error'')],
            store = store (register_user rt db se1 POST frm1), sess = se2\<rparr>"
proof -
  note o1 = register_user_new_email [OF e1 ne p1 q1 fresh, of se1]
  have r: "resp (register_user rt db se1 POST frm1) = Redirect ''login_utilizator''"
    by (simp add: o1)
  have u: "\<exists>row. users (store (register_user rt db se1 POST frm1)) = users db @ [row] \<and>
                u_email row = email"
    by (simp add: o1)
  have taken: "email \<in> set (map u_email (users (store (register_user rt db se1 POST frm1))))"
    by (simp add: o1)
  have i: "insert_user (store (register_user rt db se1 POST frm1))
             (py_strip rt (py_or (form_get frm2 ''first_name'') []))
             (py_strip rt (py_or (form_get frm2 ''last_name'') []))
             email
             (py_strip rt (py_or (form_get frm2 ''phone'') []))
             (generate_password_hash rt (py_or (form_get frm2 ''password'') []))
           = Inl IntegrityError"
    using taken by (simp add: insert_user_def)
  note o2 = register_user_taken_email [OF e2 ne p2 q2 taken, of se2]
  show ?thesis by (rule conjI [OF r conjI [OF u conjI [OF i o2]]])
qed

lemma ana_form_fields:
  "py_lower example_runtime (py_strip example_runtime (py_or (form_get (form_of [(''first_name'', ''Ana''),
       (''email'', '' Ana@Example.org ''), (''password'', ''pw''), (''password2'', ''pw'')])
       ''email'') [])) = ''ana@example.org''"
  "py_or (form_get (form_of [(''first_name'', ''Ana''),
       (''email'', '' Ana@Example.org ''), (''password'', ''pw''), (''password2'', ''pw'')])
       ''password'') [] = ''pw''"
  "py_or (form_get (form_of [(''first_name'', ''Ana''),
       (''email'', '' Ana@Example.org ''), (''password'', ''pw''), (''password2'', ''pw'')])
       ''password2'') [] = ''pw''"
  by (simp_all add: form_of_def form_get_def py_or_def example_runtime_def ascii_strip_def
        ascii_isspace_def ascii_lower_def)

lemma ana2_form_fields:
  "py_lower example_runtime (py_strip example_runtime (py_or (form_get (form_of [(''first_name'', ''Anna''),
       (''email'', ''ana@example.org''), (''password'', ''other''), (''password2'', ''other'')])
       ''email'') [])) = ''ana@example.org''"
  "py_or (form_get (form_of [(''first_name'', ''Anna''),
       (''email'', ''ana@example.org''), (''password'', ''other''), (''password2'', ''other'')])
       ''password'') [] = ''other''"
  "py_or (form_get (form_of [(''first_name'', ''Anna''),
       (''email'', ''ana@example.org''), (''password'', ''other''), (''password2'', ''other'')])
       ''password2'') [] = ''other''"
  by (simp_all add: form_of_def form_get_def py_or_def example_runtime_def ascii_strip_def
        ascii_isspace_def ascii_lower_def)

text \<open>
  Claim C8 at a concrete input: on the empty store, \<open>Ana@Example.org\<close> (with blanks around
  it) registers, then \<open>ana@example.org\<close> is refused and the table keeps its one row.
\<close>

theorem register_user_twice_same_email_witness:
  "resp (register_user example_runtime empty_db no_session POST
           (form_of [(''first_name'', ''Ana''), (''email'', '' Ana@Example.org ''),
                     (''password'', ''pw''), (''password2'', ''pw'')]))
     = Redirect ''login_utilizator'' \<and>
   map u_email (users (store (register_user example_runtime empty_db no_session POST
           (form_of [(''first_name'', ''Ana''), (''email'', '' Ana@Example.org ''),
                     (''password'', ''pw''), (''password2'', ''pw'')]))))
     = [''ana@example.org''] \<and>
   register_user example_runtime
       (store (register_user example_runtime empty_db no_session POST
           (form_of [(''first_name'', ''Ana''), (''email'', '' Ana@Example.org ''),
                     (''password'', ''pw''), (''password2'', ''pw'')])))
       no_session POST
       (form_of [(''first_name'', ''Anna''), (''email'', ''ana@example.org''),
                 (''password'', ''other''), (''password2'', ''other'')])
     = \<lparr>resp = Render ''register_user.html'',
        flashed = [(''Exista deja un cont cu acest email.'', ''error'')],
        store = store (register_user example_runtime empty_db no_session POST
           (form_of [(''first_name'', ''Ana''), (''email'', '' Ana@Example.org ''),
                     (''password'', ''pw''), (''password2'', ''pw'')])),
        sess = no_session\<rparr>"
proof -
  have ne: "''ana@example.org'' \<noteq> []" by simp
  have p1: "py_or (form_get (form_of [(''first_name'', ''Ana''),
       (''email'', '' Ana@Example.org ''), (''password'', ''pw''), (''password2'', ''pw'')])
       ''password'') [] \<noteq> []"
    by (simp add: ana_form_fields(2))
  have q1: "py_or (form_get (form_of [(''first_name'', ''Ana''),
       (''email'', '' Ana@Example.org ''), (''password'', ''pw''), (''password2'', ''pw'')])
       ''password'') [] = py_or (form_get (form_of [(''first_name'', ''Ana''),
       (''email'', '' Ana@Example.org ''), (''password'', ''pw''), (''password2'', ''pw'')])
       ''password2'') []"
    by (simp add: ana_form_fields)
  have p2: "py_or (form_get (form_of [(''first_name'', ''Anna''),
       (''email'', ''ana@example.org''), (''password'', ''other''), (''password2'', ''other'')])
       ''password'') [] \<noteq> []"
    by (simp add: ana2_form_fields(2))
  have q2: "py_or (form_get (form_of [(''first_name'', ''Anna''),
       (''email'', ''ana@example.org''), (''password'', ''other''), (''password2'', ''other'')])
       ''password'') [] = py_or (form_get (form_of [(''first_name'', ''Anna''),
       (''email'', ''ana@example.org''), (''password'', ''other''), (''password2'', ''other'')])
       ''password2'') []"
    by (simp add: ana2_form_fields)
  have fresh: "''ana@example.org'' \<notin> set (map u_email (users empty_db))"
    by (simp add: empty_db_def)
  have nil: "users empty_db = []" by (simp add: empty_db_def)
  note t = register_user_twice_same_email
             [OF ana_form_fields(1) ana2_form_fields(1) ne p1 q1 p2 q2 fresh,
              of no_session no_session]
  from t have r: "resp (register_user example_runtime empty_db no_session POST
           (form_of [(''first_name'', ''Ana''), (''email'', '' Ana@Example.org ''),
                     (''password'', ''pw''), (''password2'', ''pw'')]))
     = Redirect ''login_utilizator''" by (rule conjunct1)
  from t have u: "map u_email (users (store (register_user example_runtime empty_db no_session POST
           (form_of [(''first_name'', ''Ana''), (''email'', '' Ana@Example.org ''),
                     (''password'', ''pw''), (''password2'', ''pw'')]))))
     = [''ana@example.org'']"
  proof -
    from t have "\<exists>row. users (store (register_user example_runtime empty_db no_session POST
           (form_of [(''first_name'', ''Ana''), (''email'', '' Ana@Example.org ''),
                     (''password'', ''pw''), (''password2'', ''pw'')]))) = users empty_db @ [row] \<and>
                u_email row = ''ana@example.org''"
      by (rule conjunct1 [OF conjunct2])
    then obtain row where a: "users (store (register_user example_runtime empty_db no_session POST
           (form_of [(''first_name'', ''Ana''), (''email'', '' Ana@Example.org ''),
                     (''password'', ''pw''), (''password2'', ''pw'')]))) = users empty_db @ [row]"
      and b: "u_email row = ''ana@example.org''"
      by (elim exE conjE)
    show ?thesis by (simp add: a b nil)
  qed
  from t have o2: "register_user example_runtime
       (store (register_user example_runtime empty_db no_session POST
           (form_of [(''first_name'', ''Ana''), (''email'', '' Ana@Example.org ''),
                     (''password'', ''pw''), (''password2'', ''pw'')])))
       no_session POST
       (form_of [(''first_name'', ''Anna''), (''email'', ''ana@example.org''),
                 (''password'', ''other''), (''password2'', ''other'')])
     = \<lparr>resp = Render ''register_user.html'',
        flashed = [(''Exista deja un cont cu acest email.'', ''error'')],
        store = store (register_user example_runtime empty_db no_session POST
           (form_of [(''first_name'', ''Ana''), (''email'', '' Ana@Example.org ''),
                     (''password'', ''pw''), (''password2'', ''pw'')])),
        sess = no_session\<rparr>"
    by (rule conjunct2 [OF conjunct2 [OF conjunct2]])
  show ?thesis by (rule conjI [OF r conjI [OF u o2]])
qed

section \<open>Photo reference naming: the name chosen\<close>
















section \<open>Shelter login with an empty stored hash\<close>

text \<open>\<open>email\<close> is \<open>UNIQUE\<close> in \<open>shelters\<close>, so the lookup by a row's email returns that row.\<close>

lemma find_by_unique_email:
  "sh \<in> set xs \<Longrightarrow> distinct (map s_email xs) \<Longrightarrow>
   find (\<lambda>s. s_email s = s_email sh) xs = Some sh"
proof (induction xs)
  case Nil
  then show ?case by simp
next
  case (Cons x xs)
  show ?case
  proof (cases "x = sh")
    case True
    then show ?thesis by simp
  next
    case False
    with Cons.prems have mem: "sh \<in> set xs" by simp
    then have "s_email sh \<in> set (map s_email xs)" by simp
    with Cons.prems have "s_email x \<noteq> s_email sh" by auto
    moreover from Cons.IH mem Cons.prems have "find (\<lambda>s. s_email s = s_email sh) xs = Some sh"
      by simp
    ultimately show ?thesis by simp
  qed
qed

text \<open>A login that succeeds binds a shelter of the table whose stored hash is not empty.\<close>

lemma login_adapost_binds_hashed_shelter:
  assumes "resp (login_adapost rt db se method frm) = Redirect ''shelter_dashboard''"
  shows "\<exists>sh\<in>set (shelters db). s_password_hash sh \<noteq> [] \<and>
           sess (login_adapost rt db se method frm) = se\<lparr>shelter_id := Some (s_id sh)\<rparr>"
proof -
  let ?email = "py_lower rt (py_strip rt (py_or (form_get frm ''email'') []))"
  from assms obtain sh where f: "find (\<lambda>s. s_email s = ?email) (shelters db) = Some sh"
    by (cases "find (\<lambda>s. s_email s = ?email) (shelters db)")
       (simp_all add: login_adapost_def Let_def split: if_splits)
  then have mem: "sh \<in> set (shelters db)" by (auto simp: find_Some_iff)
  from assms f have h: "s_password_hash sh \<noteq> []"
    by (simp add: login_adapost_def Let_def split: if_splits)
  from assms f h have "sess (login_adapost rt db se method frm) = se\<lparr>shelter_id := Some (s_id sh)\<rparr>"
    by (simp add: login_adapost_def Let_def split: if_splits)
  with mem h show ?thesis by blast
qed

text \<open>
  Claim C10. A shelter row with the empty stored hash, in a table with unique emails,
  and a login request whose email (after \<open>strip\<close> and \<open>lower\<close>) is that row's: whatever
  the password and whatever \<open>check_password_hash\<close> answers, the login page is rendered
  again and the session and the store are left as they were; when both fields are
  filled in, the message is the one for wrong credentials.
\<close>

theorem login_adapost_empty_hash_is_refused:
  assumes mem: "sh \<in> set (shelters db)"
    and empty: "s_password_hash sh = []"
    and uniq: "distinct (map s_email (shelters db))"
    and em: "py_lower rt (py_strip rt (py_or (form_get frm ''email'') [])) = s_email sh"
  shows "resp (login_adapost rt db se method frm) = Render ''login_shelter.html'' \<and>
         sess (login_adapost rt db se method frm) = se \<and>
         store (login_adapost rt db se method frm) = db \<and>
         (method = POST \<and> s_email sh \<noteq> [] \<and> py_or (form_get frm ''password'') [] \<noteq> [] \<longrightarrow>
            flashed (login_adapost rt db se method frm) =
              [(''Email sau parola incorecte (sau adapostul nu e aprobat).'', ''error'')])"
proof -
  note f = find_by_unique_email [OF mem uniq]
  have r: "resp (login_adapost rt db se method frm) = Render ''login_shelter.html''"
    by (simp add: login_adapost_def Let_def em f empty)
  have s: "sess (login_adapost rt db se method frm) = se"
    by (simp add: login_adapost_def Let_def em f empty)
  have d: "store (login_adapost rt db se method frm) = db"
    by (simp add: login_adapost_def Let_def em f empty)
  have m: "method = POST \<and> s_email sh \<noteq> [] \<and> py_or (form_get frm ''password'') [] \<noteq> [] \<longrightarrow>
            flashed (login_adapost rt db se method frm) =
              [(''Email sau parola incorecte (sau adapostul nu e aprobat).'', ''error'')]"
    by (simp add: login_adapost_def Let_def em f empty)
  show ?thesis by (rule conjI [OF r conjI [OF s conjI [OF d m]]])
qed

lemma unrepaired_login_form_fields:
  "py_lower example_runtime (py_strip example_runtime (py_or (form_get (form_of [(''email'', ''A@example.org ''),
       (''password'', ''anything'')]) ''email'') [])) = ''a@example.org''"
  "py_or (form_get (form_of [(''email'', ''A@example.org ''),
       (''password'', ''anything'')]) ''password'') [] = ''anything''"
  by (simp_all add: form_of_def form_get_def py_or_def example_runtime_def ascii_strip_def
        ascii_isspace_def ascii_lower_def)

text \<open>
  Claim C10 at a concrete input: the one shelter of the store has the empty hash; a
  login with its email and some password is refused with the message for wrong
  credentials.
\<close>

theorem login_adapost_empty_hash_is_refused_witness:
  "map s_password_hash (shelters unrepaired_shelter_db) = [[]] \<and>
   resp (login_adapost example_runtime unrepaired_shelter_db no_session POST
           (form_of [(''email'', ''A@example.org ''), (''password'', ''anything'')]))
     = Render ''login_shelter.html'' \<and>
   sess (login_adapost example_runtime unrepaired_shelter_db no_session POST
           (form_of [(''email'', ''A@example.org ''), (''password'', ''anything'')]))
     = no_session \<and>
   flashed (login_adapost example_runtime unrepaired_shelter_db no_session POST
           (form_of [(''email'', ''A@example.org ''), (''password'', ''anything'')]))
     = [(''Email sau parola incorecte (sau adapostul nu e aprobat).'', ''error'')]"
proof -
  let ?sh = "example_shelter 1 ''a@example.org'' 0 []"
  let ?frm = "form_of [(''email'', ''A@example.org ''), (''password'', ''anything'')]"
  have tbl: "shelters unrepaired_shelter_db = [?sh]"
    by (simp add: unrepaired_shelter_db_def empty_db_def)
  have mem: "?sh \<in> set (shelters unrepaired_shelter_db)" by (simp add: tbl)
  have empty: "s_password_hash ?sh = []" by (simp add: example_shelter_def)
  have uniq: "distinct (map s_email (shelters unrepaired_shelter_db))" by (simp add: tbl)
  have mail: "s_email ?sh = ''a@example.org''" by (simp add: example_shelter_def)
  have em: "py_lower example_runtime (py_strip example_runtime (py_or (form_get ?frm ''email'') []))
              = s_email ?sh"
    by (simp only: unrepaired_login_form_fields(1) mail)
  have h: "map s_password_hash (shelters unrepaired_shelter_db) = [[]]"
    by (simp add: tbl empty)
  note t = login_adapost_empty_hash_is_refused
             [OF mem empty uniq em, of no_session POST]
  from t have r: "resp (login_adapost example_runtime unrepaired_shelter_db no_session POST ?frm)
     = Render ''login_shelter.html''" by (rule conjunct1)
  from t have s: "sess (login_adapost example_runtime unrepaired_shelter_db no_session POST ?frm)
     = no_session" by (rule conjunct1 [OF conjunct2])
  from t have "POST = POST \<and> s_email ?sh \<noteq> [] \<and> py_or (form_get ?frm ''password'') [] \<noteq> [] \<longrightarrow>
      flashed (login_adapost example_runtime unrepaired_shelter_db no_session POST ?frm)
     = [(''Email sau parola incorecte (sau adapostul nu e aprobat).'', ''error'')]"
    by (rule conjunct2 [OF conjunct2 [OF conjunct2]])
  moreover have "POST = POST \<and> s_email ?sh \<noteq> [] \<and> py_or (form_get ?frm ''password'') [] \<noteq> []"
    by (simp add: mail unrepaired_login_form_fields(2))
  ultimately have fl: "flashed (login_adapost example_runtime unrepaired_shelter_db no_session POST ?frm)
     = [(''Email sau parola incorecte (sau adapostul nu e aprobat).'', ''error'')]"
    by (rule mp)
  show ?thesis by (rule conjI [OF h conjI [OF r conjI [OF s fl]]])
qed

end
